theory Spec2Isabelle
  imports Main "HOL-Library.Word"
begin

unbundle bit_operations_syntax

section \<open>JavaScript values used by the controller\<close>

text \<open>
  The numbers the program handles (channel indices, LED counts, colour components, modes)
  are modelled as unbounded integers. A \<open>Buffer\<close> is a list of bytes; storing a number
  into one of its cells keeps the number modulo 256 (\<open>ToUint8\<close>), and a store or a read
  outside the buffer does nothing or yields \<open>undefined\<close> (\<open>None\<close>).
\<close>

type_synonym byte = "8 word"
type_synonym Buffer = "byte list"

definition ToUint8 :: "int \<Rightarrow> byte" where
  "ToUint8 v = word_of_int v"

text \<open>The operator \<open>a | b\<close>: both operands are taken as signed 32-bit integers.\<close>

definition js_bitor :: "int \<Rightarrow> int \<Rightarrow> int" where
  "js_bitor x y = sint ((word_of_int x :: 32 word) OR (word_of_int y :: 32 word))"

text \<open>\<open>packet[i] = v\<close> on a Buffer.\<close>

definition buf_set :: "Buffer \<Rightarrow> nat \<Rightarrow> int \<Rightarrow> Buffer" where
  "buf_set packet i v = (if i < length packet then packet[i := ToUint8 v] else packet)"

text \<open>\<open>response[i]\<close> on a Buffer: a number in 0..255, or \<open>undefined\<close>.\<close>

definition buf_get :: "Buffer \<Rightarrow> nat \<Rightarrow> int option" where
  "buf_get response i = (if i < length response then Some (uint (response ! i)) else None)"

text \<open>
  Every \<open>throw\<close> of the two modules is a constructor; the transport's own failures
  (\<open>src/hid.js\<close>) are \<open>OpenFailed\<close> and \<open>WriteFailed\<close>, and \<open>RangeError\<close> is what
  \<open>Array(count)\<close> raises for a length that is negative or not below \<open>2^32\<close>.
\<close>

datatype State = DISCONNECTED | LOCKED | RUNTIME | COMMITTED

datatype error =
    ControllerNotFound
  | OpenFailed
  | NotConnected
  | BadPacketSize
  | WriteFailed
  | InvalidConfigResponse
  | BSM_CannotInitTopology
  | BSM_NotConnected
  | BSM_CannotCommit State
  | RangeError

text \<open>
  The source throws plain \<open>Error\<close> objects. The errors raised by the session's state
  guards (the messages starting with \<open>[BSM]\<close>) are the state errors; the one raised for
  a missing or ill-prefixed configuration response is the protocol error.
\<close>

fun StateError :: "error \<Rightarrow> bool" where
  "StateError BSM_CannotInitTopology = True"
| "StateError BSM_NotConnected = True"
| "StateError (BSM_CannotCommit st) = True"
| "StateError e = False"

fun ProtocolError :: "error \<Rightarrow> bool" where
  "ProtocolError InvalidConfigResponse = True"
| "ProtocolError e = False"

section \<open>The HID transport, seen from the protocol\<close>

text \<open>
  The device handle of \<open>src/hid.js\<close> is external to the protocol layer. It is modelled by
  what the protocol can observe: the packets it accepted (\<open>written\<close>, oldest first), the
  outcome of each coming \<open>write\<close> (\<open>write_ok n\<close> for the n-th from now; a failing write
  throws) and the results of the coming \<open>readTimeout\<close> calls (\<open>incoming\<close>; \<open>None\<close> is
  \<open>null\<close>, and so is a read when nothing is left).
\<close>

record HIDDevice =
  written :: "Buffer list"
  write_ok :: "nat \<Rightarrow> bool"
  incoming :: "Buffer option list"

definition HIDDevice_write :: "Buffer \<Rightarrow> HIDDevice \<Rightarrow> bool \<times> HIDDevice" where
  "HIDDevice_write data d =
     (if write_ok d 0
      then (True, d\<lparr>written := written d @ [data], write_ok := (\<lambda>n. write_ok d (Suc n))\<rparr>)
      else (False, d\<lparr>write_ok := (\<lambda>n. write_ok d (Suc n))\<rparr>))"

definition HIDDevice_readTimeout :: "HIDDevice \<Rightarrow> Buffer option \<times> HIDDevice" where
  "HIDDevice_readTimeout d =
     (case incoming d of
        [] \<Rightarrow> (None, d)
      | response # rest \<Rightarrow> (response, d\<lparr>incoming := rest\<rparr>))"

text \<open>What \<open>HID.devices()\<close> and \<open>new HID.HID(path)\<close> give when the protocol connects.\<close>

datatype hid_env = NoDevice | OpenDenied | Present HIDDevice

section \<open>AuraProtocol (src/protocol.js)\<close>

text \<open>
  Methods mutate the object and may throw, so each is a function from the object to a
  result (\<open>Inl\<close> the error thrown) paired with the object as the call left it. The
  \<open>verbose\<close> flag only prints and is left out.
\<close>

definition PACKET_SIZE :: nat where
  "PACKET_SIZE = 65"

record AuraProtocol =
  device :: "HIDDevice option"

definition new_AuraProtocol :: AuraProtocol where
  "new_AuraProtocol = \<lparr>device = None\<rparr>"

definition AuraProtocol_connect :: "hid_env \<Rightarrow> AuraProtocol \<Rightarrow> (error + unit) \<times> AuraProtocol" where
  "AuraProtocol_connect env p =
     (case env of
        NoDevice \<Rightarrow> (Inl ControllerNotFound, p)
      | OpenDenied \<Rightarrow> (Inl OpenFailed, p)
      | Present d \<Rightarrow> (Inr (), p\<lparr>device := Some d\<rparr>))"

definition AuraProtocol_disconnect :: "AuraProtocol \<Rightarrow> AuraProtocol" where
  "AuraProtocol_disconnect p = (case device p of None \<Rightarrow> p | Some d \<Rightarrow> p\<lparr>device := None\<rparr>)"

definition sendPacket ::
  "Buffer \<Rightarrow> bool \<Rightarrow> AuraProtocol \<Rightarrow> (error + Buffer option) \<times> AuraProtocol" where
  "sendPacket packet waitResponse p =
     (case device p of
        None \<Rightarrow> (Inl NotConnected, p)
      | Some d \<Rightarrow>
          if length packet \<noteq> PACKET_SIZE then (Inl BadPacketSize, p)
          else (case HIDDevice_write packet d of
                  (False, d') \<Rightarrow> (Inl WriteFailed, p\<lparr>device := Some d'\<rparr>)
                | (True, d') \<Rightarrow>
                    if waitResponse
                    then (case HIDDevice_readTimeout d' of
                            (response, d'') \<Rightarrow> (Inr response, p\<lparr>device := Some d''\<rparr>))
                    else (Inr None, p\<lparr>device := Some d'\<rparr>)))"

definition createPacket :: Buffer where
  "createPacket = replicate PACKET_SIZE 0"

subsection \<open>getConfig\<close>

record Config =
  raw :: Buffer
  configBytes :: Buffer
  channel0_leds :: "int option"
  channel1_leds :: "int option"
  channel2_leds :: "int option"

text \<open>The packet \<open>getConfig\<close> builds (lines 99-101).\<close>

definition encodeReadConfig :: Buffer where
  "encodeReadConfig =
     (let packet = createPacket;
          packet = buf_set packet 0 0xEC;
          packet = buf_set packet 1 0xB0
      in packet)"

text \<open>What \<open>getConfig\<close> does with the response of \<open>sendPacket\<close> (lines 104-114).\<close>

definition decodeConfig :: "Buffer option \<Rightarrow> error + Config" where
  "decodeConfig resp =
     (case resp of
        None \<Rightarrow> Inl InvalidConfigResponse
      | Some response \<Rightarrow>
          if buf_get response 0 \<noteq> Some 0xEC \<or> buf_get response 1 \<noteq> Some 0x30
          then Inl InvalidConfigResponse
          else Inr \<lparr>raw = response,
                    configBytes = response,
                    channel0_leds = buf_get response 0x0A,
                    channel1_leds = buf_get response 0x10,
                    channel2_leds = buf_get response 0x16\<rparr>)"

definition AuraProtocol_getConfig :: "AuraProtocol \<Rightarrow> (error + Config) \<times> AuraProtocol" where
  "AuraProtocol_getConfig p =
     (case sendPacket encodeReadConfig True p of
        (Inl e, p') \<Rightarrow> (Inl e, p')
      | (Inr response, p') \<Rightarrow> (decodeConfig response, p'))"

subsection \<open>setLEDCount, commit, setEffect\<close>

definition encodeSetTopology :: "int \<Rightarrow> int \<Rightarrow> Buffer" where
  "encodeSetTopology channel count =
     (let packet = createPacket;
          packet = buf_set packet 0 0xEC;
          packet = buf_set packet 1 0x52;
          packet = buf_set packet 2 0x53;
          packet = buf_set packet 3 channel;
          packet = buf_set packet 4 count
      in packet)"

definition setLEDCount :: "int \<Rightarrow> int \<Rightarrow> AuraProtocol \<Rightarrow> (error + unit) \<times> AuraProtocol" where
  "setLEDCount channel count p =
     (case sendPacket (encodeSetTopology channel count) False p of
        (Inl e, p') \<Rightarrow> (Inl e, p')
      | (Inr _, p') \<Rightarrow> (Inr (), p'))"

definition encodeCommit :: Buffer where
  "encodeCommit =
     (let packet = createPacket;
          packet = buf_set packet 0 0xEC;
          packet = buf_set packet 1 0x3F;
          packet = buf_set packet 2 0x55
      in packet)"

definition AuraProtocol_commit :: "AuraProtocol \<Rightarrow> (error + unit) \<times> AuraProtocol" where
  "AuraProtocol_commit p =
     (case sendPacket encodeCommit False p of
        (Inl e, p') \<Rightarrow> (Inl e, p')
      | (Inr _, p') \<Rightarrow> (Inr (), p'))"

text \<open>An omitted optional argument (\<open>None\<close>) takes the default of the parameter list.\<close>

definition default_arg :: "int \<Rightarrow> int option \<Rightarrow> int" where
  "default_arg d v = (case v of None \<Rightarrow> d | Some x \<Rightarrow> x)"

definition encodeSetEffect :: "int \<Rightarrow> int \<Rightarrow> int \<Rightarrow> int \<Rightarrow> int \<Rightarrow> int \<Rightarrow> Buffer" where
  "encodeSetEffect channel mode r g b brightness =
     (let packet = createPacket;
          packet = buf_set packet 0 0xEC;
          packet = buf_set packet 1 0x35;
          packet = buf_set packet 2 channel;
          packet = buf_set packet 3 mode;
          packet = buf_set packet 4 r;
          packet = buf_set packet 5 g;
          packet = buf_set packet 6 b;
          packet = buf_set packet 7 brightness
      in packet)"

definition AuraProtocol_setEffect ::
  "int \<Rightarrow> int \<Rightarrow> int option \<Rightarrow> int option \<Rightarrow> int option \<Rightarrow> int option \<Rightarrow> AuraProtocol
     \<Rightarrow> (error + unit) \<times> AuraProtocol" where
  "AuraProtocol_setEffect channel mode r g b brightness p =
     (case sendPacket
             (encodeSetEffect channel mode (default_arg 0 r) (default_arg 0 g) (default_arg 0 b)
                (default_arg 0xFF brightness)) False p of
        (Inl e, p') \<Rightarrow> (Inl e, p')
      | (Inr _, p') \<Rightarrow> (Inr (), p'))"

subsection \<open>setDirectLED\<close>

record Color =
  col_r :: int
  col_g :: int
  col_b :: int

text \<open>The \<open>for\<close> loop of \<open>setDirectLED\<close> (lines 173-178), from index \<open>i\<close>.\<close>

function setDirectLED_loop :: "Color list \<Rightarrow> nat \<Rightarrow> Buffer \<Rightarrow> Buffer" where
  "setDirectLED_loop colors i packet =
     (if i < length colors \<and> i < 20
      then (let idx = 0x05 + (i * 3);
                packet = buf_set packet (idx + 0) (col_r (colors ! i));
                packet = buf_set packet (idx + 1) (col_g (colors ! i));
                packet = buf_set packet (idx + 2) (col_b (colors ! i))
            in setDirectLED_loop colors (i + 1) packet)
      else packet)"
  by pat_completeness auto
termination
  by (relation "measure (\<lambda>(colors, i, packet). 20 - i)") auto

declare setDirectLED_loop.simps [simp del]

definition encodeSetDirectColors :: "int \<Rightarrow> int \<Rightarrow> Color list \<Rightarrow> Buffer" where
  "encodeSetDirectColors channel offset colors =
     (let packet = createPacket;
          packet = buf_set packet 0 0xEC;
          packet = buf_set packet 1 0x40;
          packet = buf_set packet 2 (js_bitor 0x80 channel);
          packet = buf_set packet 3 offset;
          packet = buf_set packet 4 (int (length colors))
      in setDirectLED_loop colors 0 packet)"

definition setDirectLED ::
  "int \<Rightarrow> int \<Rightarrow> Color list \<Rightarrow> AuraProtocol \<Rightarrow> (error + unit) \<times> AuraProtocol" where
  "setDirectLED channel offset colors p =
     (case sendPacket (encodeSetDirectColors channel offset colors) False p of
        (Inl e, p') \<Rightarrow> (Inl e, p')
      | (Inr _, p') \<Rightarrow> (Inr (), p'))"

section \<open>SafeAuraController (src/aura-safe.js)\<close>

text \<open>
  A topology is an object whose keys are channel indices and whose values are LED counts.
  It is kept as an association list in the order in which its properties were created:
  the key \<open>k\<close> stands for the property whose name is the decimal numeral of \<open>k\<close>,
  \<open>map_of\<close> reads a property, and a later pair whose key is already present is no
  property of its own. (A property whose name is no such numeral, like the name
  \<open>1e+21\<close> that the number \<open>10^21\<close> gives, is not in this type.)

  The code never sorts the channels; it relies on the order of \<open>Object.entries\<close>, which
  lists every property once: first the properties whose key is an array index (a key
  below \<open>2^32 - 1\<close>) in ascending numeric order, then the other properties in the order of
  their creation. In the loops over a topology, \<open>parseInt\<close> reads the name back as the
  number \<open>k\<close>; this is exact for every key below \<open>2^53\<close>, while for a larger key
  \<open>parseInt\<close> gives the nearest double, which the loops below do not follow. What is
  proved about the packets sent for a topology therefore assumes keys that are array
  indices.
\<close>

type_synonym Topology = "(nat \<times> int) list"

definition default_topology :: Topology where
  "default_topology = [(0, 15), (1, 15), (2, 16)]"

fun entries_of :: "Topology \<Rightarrow> nat list \<Rightarrow> (nat \<times> int) list" where
  "entries_of t [] = []"
| "entries_of t (k # ks) =
     (case map_of t k of
        None \<Rightarrow> entries_of t ks
      | Some v \<Rightarrow> (k, v) # entries_of t ks)"

definition array_index :: "nat \<Rightarrow> bool" where
  "array_index k \<longleftrightarrow> k < 2 ^ 32 - 1"

definition OwnPropertyKeys :: "Topology \<Rightarrow> nat list" where
  "OwnPropertyKeys t =
     sort (remdups (filter array_index (map fst t)))
       @ rev (remdups (rev (filter (\<lambda>k. \<not> array_index k) (map fst t))))"

definition Object_entries :: "Topology \<Rightarrow> (nat \<times> int) list" where
  "Object_entries t = entries_of t (OwnPropertyKeys t)"

text \<open>\<open>this.topology[channel]\<close>; \<open>None\<close> is \<open>undefined\<close>.\<close>

definition Topology_get :: "Topology \<Rightarrow> int \<Rightarrow> int option" where
  "Topology_get t channel = (if channel < 0 then None else map_of t (nat channel))"

record SafeAuraController =
  protocol :: AuraProtocol
  state :: State
  topology :: Topology

text \<open>The constructor; its argument is \<open>options.topology\<close>.\<close>

definition new_SafeAuraController :: "Topology option \<Rightarrow> SafeAuraController" where
  "new_SafeAuraController options_topology =
     \<lparr>protocol = new_AuraProtocol,
      state = DISCONNECTED,
      topology = (case options_topology of None \<Rightarrow> default_topology | Some t \<Rightarrow> t)\<rparr>"

text \<open>
  The loop \<open>for (const [channel, count] of Object.entries(...)) this.protocol.setLEDCount(parseInt(channel), count)\<close>
  of \<open>initTopology\<close> and of \<open>unbrick\<close>: it stops at the first call that throws.
\<close>

fun setLEDCount_each :: "(nat \<times> int) list \<Rightarrow> AuraProtocol \<Rightarrow> (error + unit) \<times> AuraProtocol" where
  "setLEDCount_each [] p = (Inr (), p)"
| "setLEDCount_each ((channel, count) # rest) p =
     (case setLEDCount (int channel) count p of
        (Inl e, p') \<Rightarrow> (Inl e, p')
      | (Inr _, p') \<Rightarrow> setLEDCount_each rest p')"

definition initTopology :: "SafeAuraController \<Rightarrow> (error + unit) \<times> SafeAuraController" where
  "initTopology s =
     (if state s = DISCONNECTED then (Inl BSM_CannotInitTopology, s)
      else (case setLEDCount_each (Object_entries (topology s)) (protocol s) of
              (Inl e, p') \<Rightarrow> (Inl e, s\<lparr>protocol := p'\<rparr>)
            | (Inr _, p') \<Rightarrow> (Inr (), s\<lparr>protocol := p', state := RUNTIME\<rparr>)))"

definition connect :: "hid_env \<Rightarrow> SafeAuraController \<Rightarrow> (error + unit) \<times> SafeAuraController" where
  "connect env s =
     (case AuraProtocol_connect env (protocol s) of
        (Inl e, p') \<Rightarrow> (Inl e, s\<lparr>protocol := p'\<rparr>)
      | (Inr _, p') \<Rightarrow> initTopology (s\<lparr>protocol := p', state := LOCKED\<rparr>))"

definition disconnect :: "SafeAuraController \<Rightarrow> SafeAuraController" where
  "disconnect s = s\<lparr>protocol := AuraProtocol_disconnect (protocol s), state := DISCONNECTED\<rparr>"

text \<open>The guard \<open>_ensureRuntime\<close>.\<close>

definition ensureRuntime :: "SafeAuraController \<Rightarrow> (error + unit) \<times> SafeAuraController" where
  "ensureRuntime s =
     (if state s = DISCONNECTED then (Inl BSM_NotConnected, s)
      else if state s = LOCKED then initTopology s
      else (Inr (), s))"

definition setLED ::
  "int \<Rightarrow> int \<Rightarrow> int \<Rightarrow> int \<Rightarrow> int \<Rightarrow> SafeAuraController \<Rightarrow> (error + unit) \<times> SafeAuraController" where
  "setLED channel ledIndex r g b s =
     (case ensureRuntime s of
        (Inl e, s') \<Rightarrow> (Inl e, s')
      | (Inr _, s') \<Rightarrow>
          (case setDirectLED channel ledIndex [\<lparr>col_r = r, col_g = g, col_b = b\<rparr>] (protocol s') of
             (res, p') \<Rightarrow> (res, s'\<lparr>protocol := p'\<rparr>)))"

text \<open>\<open>Array(count).fill(x)\<close> for an integer \<open>count\<close>.\<close>

definition Array_fill :: "int \<Rightarrow> 'a \<Rightarrow> error + 'a list" where
  "Array_fill count x =
     (if 0 \<le> count \<and> count < 2 ^ 32 then Inr (replicate (nat count) x) else Inl RangeError)"

definition setAllLEDs ::
  "int \<Rightarrow> int \<Rightarrow> int \<Rightarrow> int \<Rightarrow> SafeAuraController \<Rightarrow> (error + unit) \<times> SafeAuraController" where
  "setAllLEDs channel r g b s =
     (case ensureRuntime s of
        (Inl e, s') \<Rightarrow> (Inl e, s')
      | (Inr _, s') \<Rightarrow>
          (let count = (case Topology_get (topology s') channel of
                          None \<Rightarrow> 16
                        | Some c \<Rightarrow> if c = 0 then 16 else c)
           in case Array_fill count \<lparr>col_r = r, col_g = g, col_b = b\<rparr> of
                Inl e \<Rightarrow> (Inl e, s')
              | Inr colors \<Rightarrow>
                  (case setDirectLED channel 0 colors (protocol s') of
                     (res, p') \<Rightarrow> (res, s'\<lparr>protocol := p'\<rparr>))))"

definition setEffect ::
  "int \<Rightarrow> int \<Rightarrow> int option \<Rightarrow> int option \<Rightarrow> int option \<Rightarrow> int option \<Rightarrow> SafeAuraController
     \<Rightarrow> (error + unit) \<times> SafeAuraController" where
  "setEffect channel mode r g b brightness s =
     (case ensureRuntime s of
        (Inl e, s') \<Rightarrow> (Inl e, s')
      | (Inr _, s') \<Rightarrow>
          (case AuraProtocol_setEffect channel mode (Some (default_arg 0 r)) (Some (default_arg 0 g))
                  (Some (default_arg 0 b)) (Some (default_arg 0xFF brightness)) (protocol s') of
             (res, p') \<Rightarrow> (res, s'\<lparr>protocol := p'\<rparr>)))"

definition commit :: "SafeAuraController \<Rightarrow> (error + unit) \<times> SafeAuraController" where
  "commit s =
     (if state s \<noteq> RUNTIME then (Inl (BSM_CannotCommit (state s)), s)
      else (case AuraProtocol_commit (protocol s) of
              (Inl e, p') \<Rightarrow> (Inl e, s\<lparr>protocol := p'\<rparr>)
            | (Inr _, p') \<Rightarrow> (Inr (), s\<lparr>protocol := p', state := COMMITTED\<rparr>)))"

definition getConfig :: "SafeAuraController \<Rightarrow> (error + Config) \<times> SafeAuraController" where
  "getConfig s =
     (if state s = DISCONNECTED then (Inl BSM_NotConnected, s)
      else (case AuraProtocol_getConfig (protocol s) of
              (res, p') \<Rightarrow> (res, s\<lparr>protocol := p'\<rparr>)))"

definition getState :: "SafeAuraController \<Rightarrow> State" where
  "getState s = state s"

text \<open>The test \<open>isBricked\<close> applies to the configuration it has read (lines 195-209).\<close>

definition isBricked_check :: "Config \<Rightarrow> bool" where
  "isBricked_check config =
     (let ch0 = channel0_leds config;
          ch1 = channel1_leds config;
          ch2 = channel2_leds config
      in if ch0 = Some 0 \<or> ch1 = Some 0 \<or> ch2 = Some 0 then True
         else if ch0 = ch1 \<and> ch1 = ch2 \<and> ch0 \<noteq> Some 15 then True
         else False)"

definition isBricked :: "SafeAuraController \<Rightarrow> bool \<times> SafeAuraController" where
  "isBricked s =
     (case getConfig s of
        (Inr config, s') \<Rightarrow> (isBricked_check config, s')
      | (Inl err, s') \<Rightarrow> (True, s'))"

text \<open>\<open>config.channel2_leds >= 16\<close>; comparing \<open>undefined\<close> gives false.\<close>

definition ge16 :: "int option \<Rightarrow> bool" where
  "ge16 v = (case v of None \<Rightarrow> False | Some n \<Rightarrow> n \<ge> 16)"

definition unbrick ::
  "Topology option \<Rightarrow> SafeAuraController \<Rightarrow> (error + bool) \<times> SafeAuraController" where
  "unbrick targetTopology s =
     (let topo = (case targetTopology of None \<Rightarrow> topology s | Some t \<Rightarrow> t)
      in case setLEDCount_each (Object_entries topo) (protocol s) of
           (Inl e, p1) \<Rightarrow> (Inl e, s\<lparr>protocol := p1\<rparr>)
         | (Inr _, p1) \<Rightarrow>
             (case AuraProtocol_commit p1 of
                (Inl e, p2) \<Rightarrow> (Inl e, s\<lparr>protocol := p2\<rparr>)
              | (Inr _, p2) \<Rightarrow>
                  (case getConfig (s\<lparr>protocol := p2\<rparr>) of
                     (Inl e, s3) \<Rightarrow> (Inl e, s3)
                   | (Inr config, s3) \<Rightarrow>
                       (let success = ge16 (channel2_leds config)
                        in (Inr success, s3\<lparr>state := COMMITTED\<rparr>)))))"

section \<open>Notions used to state the properties\<close>

text \<open>The bytes a sequence of colours takes on the wire: r, g, b of each colour in turn.\<close>

definition triplets :: "Color list \<Rightarrow> Buffer" where
  "triplets colors =
     concat (map (\<lambda>c. [ToUint8 (col_r c), ToUint8 (col_g c), ToUint8 (col_b c)]) colors)"

text \<open>A topology all of whose keys are array indices.\<close>

definition array_index_keys :: "Topology \<Rightarrow> bool" where
  "array_index_keys t = list_all array_index (map fst t)"

text \<open>A transport on which every coming write succeeds.\<close>

definition writes_succeed :: "HIDDevice \<Rightarrow> bool" where
  "writes_succeed d = (\<forall>n. write_ok d n)"

text \<open>
  Concrete inputs: a configuration response with the counts \<open>c0\<close>, \<open>c1\<close>, \<open>c2\<close> at the
  offsets 0x0A, 0x10 and 0x16, a device that accepts every write and answers the reads
  with the given responses, and a session on that device in a given state.
\<close>

definition example_response :: "byte \<Rightarrow> byte \<Rightarrow> byte \<Rightarrow> Buffer" where
  "example_response c0 c1 c2 =
     (replicate 65 0)[0 := 0xEC, 1 := 0x30, 0x0A := c0, 0x10 := c1, 0x16 := c2]"

definition example_device :: "Buffer option list \<Rightarrow> HIDDevice" where
  "example_device responses = \<lparr>written = [], write_ok = (\<lambda>n. True), incoming = responses\<rparr>"

definition example_session :: "State \<Rightarrow> Buffer option list \<Rightarrow> SafeAuraController" where
  "example_session st responses =
     \<lparr>protocol = \<lparr>device = Some (example_device responses)\<rparr>,
      state = st,
      topology = default_topology\<rparr>"

section \<open>Packets\<close>

lemma length_buf_set: "length (buf_set p i v) = length p"
  by (simp add: buf_set_def)

lemma ToUint8_numerals: "ToUint8 0xEC = 0xEC" "ToUint8 0xB0 = 0xB0" "ToUint8 0x52 = 0x52" "ToUint8 0x53 = 0x53"
  "ToUint8 0x3F = 0x3F" "ToUint8 0x55 = 0x55" "ToUint8 0x35 = 0x35" "ToUint8 0x40 = 0x40"
  by (simp_all add: ToUint8_def)

lemma replicate_numeral_unfold: "replicate (numeral k) x = x # replicate (pred_numeral k) x"
  by (simp add: numeral_eq_Suc)

lemmas packet_unfold = createPacket_def PACKET_SIZE_def buf_set_def ToUint8_numerals Let_def
  replicate_numeral_unfold

lemma encodeReadConfig_closed: "encodeReadConfig = [0xEC, 0xB0] @ replicate 63 0"
  by (simp add: encodeReadConfig_def packet_unfold)

lemma encodeCommit_closed: "encodeCommit = [0xEC, 0x3F, 0x55] @ replicate 62 0"
  by (simp add: encodeCommit_def packet_unfold)

lemma encodeSetTopology_closed:
  "encodeSetTopology channel count = [0xEC, 0x52, 0x53, ToUint8 channel, ToUint8 count] @ replicate 60 0"
  by (simp add: encodeSetTopology_def packet_unfold)

lemma encodeSetEffect_closed:
  "encodeSetEffect channel mode r g b brightness =
     [0xEC, 0x35, ToUint8 channel, ToUint8 mode, ToUint8 r, ToUint8 g, ToUint8 b, ToUint8 brightness]
       @ replicate 57 0"
  by (simp add: encodeSetEffect_def packet_unfold)

lemma take_three_updates:
  assumes "k + 3 \<le> length p"
  shows "take (k + 3) (p[k := x, k + 1 := y, k + 2 := z]) = take k p @ [x, y, z]"
proof -
  let ?q = "p[k := x, k + 1 := y, k + 2 := z]"
  have len: "length ?q = length p" by simp
  have "take (Suc (Suc (Suc k))) ?q = take (Suc (Suc k)) ?q @ [?q ! Suc (Suc k)]"
    using assms len by (intro take_Suc_conv_app_nth) simp
  also have "take (Suc (Suc k)) ?q = take (Suc k) ?q @ [?q ! Suc k]"
    using assms len by (intro take_Suc_conv_app_nth) simp
  also have "take (Suc k) ?q = take k ?q @ [?q ! k]"
    using assms len by (intro take_Suc_conv_app_nth) simp
  finally have "take (Suc (Suc (Suc k))) ?q = take k ?q @ [?q ! k, ?q ! Suc k, ?q ! Suc (Suc k)]"
    by simp
  moreover have "take k ?q = take k p" by simp
  moreover have "?q ! k = x" "?q ! Suc k = y" "?q ! Suc (Suc k) = z"
    using assms by (simp_all add: nth_list_update)
  moreover have e: "k + 3 = Suc (Suc (Suc k))" "k + 1 = Suc k" "k + 2 = Suc (Suc k)" by simp_all
  ultimately show ?thesis unfolding e by simp
qed

lemma drop_three_updates:
  assumes "k + 3 \<le> n"
  shows "drop n (p[k := x, k + 1 := y, k + 2 := z]) = drop n p"
  using assms by simp

lemma triplets_step:
  assumes "i < length colors" "i < 20"
  shows "triplets (take (20 - i) (drop i colors)) =
         [ToUint8 (col_r (colors ! i)), ToUint8 (col_g (colors ! i)), ToUint8 (col_b (colors ! i))]
           @ triplets (take (20 - (i + 1)) (drop (i + 1) colors))"
proof -
  have "drop i colors = colors ! i # drop (i + 1) colors"
    using assms(1) by (simp add: Cons_nth_drop_Suc)
  moreover have "20 - i = Suc (20 - (i + 1))" using assms(2) by simp
  ultimately show ?thesis by (simp add: triplets_def)
qed

lemma setDirectLED_loop_closed:
  assumes "length packet = 65" "i \<le> 20"
  shows "setDirectLED_loop colors i packet =
           take (5 + 3 * i) packet @ triplets (take (20 - i) (drop i colors))
             @ drop (5 + 3 * i + 3 * length (take (20 - i) (drop i colors))) packet"
  using assms
proof (induction colors i packet rule: setDirectLED_loop.induct)
  case (1 colors i packet)
  show ?case
  proof (cases "i < length colors \<and> i < 20")
    case False
    then have e: "take (20 - i) (drop i colors) = []" by auto
    have r: "setDirectLED_loop colors i packet = packet"
      by (subst setDirectLED_loop.simps) (simp only: False if_False)
    show ?thesis unfolding e r by (simp add: triplets_def)
  next
    case True
    define x where "x = ToUint8 (col_r (colors ! i))"
    define y where "y = ToUint8 (col_g (colors ! i))"
    define z where "z = ToUint8 (col_b (colors ! i))"
    define k where "k = 5 + 3 * i"
    define p3 where "p3 =
      buf_set (buf_set (buf_set packet (5 + i * 3 + 0) (col_r (colors ! i)))
        (5 + i * 3 + 1) (col_g (colors ! i))) (5 + i * 3 + 2) (col_b (colors ! i))"
    have k3: "k + 3 \<le> length packet" using True "1.prems" by (simp add: k_def)
    have p3_eq: "p3 = packet[k := x, k + 1 := y, k + 2 := z]"
      using k3 by (simp add: p3_def buf_set_def k_def x_def y_def z_def add.commute mult.commute)
    have step: "setDirectLED_loop colors i packet = setDirectLED_loop colors (i + 1) p3"
      using True by (subst setDirectLED_loop.simps) (simp add: Let_def p3_def)
    have len3: "length p3 = 65" using "1.prems" by (simp add: p3_eq)
    have le: "i + 1 \<le> 20" using True by simp
    have IH: "setDirectLED_loop colors (i + 1) p3 =
           take (5 + 3 * (i + 1)) p3 @ triplets (take (20 - (i + 1)) (drop (i + 1) colors))
             @ drop (5 + 3 * (i + 1) + 3 * length (take (20 - (i + 1)) (drop (i + 1) colors))) p3"
      using "1.IH" [OF True refl refl refl refl] len3 le by (simp add: p3_def)
    have t: "take (5 + 3 * (i + 1)) p3 = take k packet @ [x, y, z]"
      using take_three_updates [OF k3, of x y z] by (simp add: p3_eq k_def add.commute)
    have d: "drop (5 + 3 * (i + 1) + 3 * length (take (20 - (i + 1)) (drop (i + 1) colors))) p3
           = drop (5 + 3 * (i + 1) + 3 * length (take (20 - (i + 1)) (drop (i + 1) colors))) packet"
      unfolding p3_eq by (rule drop_three_updates) (simp add: k_def)
    have l: "length (take (20 - i) (drop i colors)) = Suc (length (take (20 - (i + 1)) (drop (i + 1) colors)))"
      using True by auto
    show ?thesis
      unfolding step IH t d triplets_step [OF conjunct1 [OF True] conjunct2 [OF True]] l
      by (simp add: k_def x_def y_def z_def add.assoc)
  qed
qed

lemma encodeSetDirectColors_closed:
  "encodeSetDirectColors channel offset colors =
     [0xEC, 0x40, ToUint8 (js_bitor 0x80 channel), ToUint8 offset, ToUint8 (int (length colors))]
       @ triplets (take 20 colors) @ replicate (60 - 3 * min (length colors) 20) 0"
proof -
  define header where
    "header = [0xEC, 0x40, ToUint8 (js_bitor 0x80 channel), ToUint8 offset, ToUint8 (int (length colors))]"
  have enc: "encodeSetDirectColors channel offset colors =
     setDirectLED_loop colors 0 (header @ replicate 60 0)"
    by (simp add: encodeSetDirectColors_def packet_unfold header_def)
  have len: "length (header @ replicate 60 0) = 65" by (simp add: header_def)
  have h5: "length header = 5" by (simp add: header_def)
  have "setDirectLED_loop colors 0 (header @ replicate 60 0) =
      header @ triplets (take 20 colors) @ replicate (60 - 3 * min (length colors) 20) 0"
    using setDirectLED_loop_closed [OF len, of 0 colors] h5 by (simp add: min.commute)
  then show ?thesis unfolding enc header_def .
qed

section \<open>Sending packets\<close>

lemma length_packets [simp]:
  "length encodeReadConfig = 65" "length encodeCommit = 65"
  "length (encodeSetTopology channel count) = 65"
  "length (encodeSetEffect channel mode r g b brightness) = 65"
  "length (encodeSetDirectColors channel offset colors) = 65"
  by (simp_all add: encodeReadConfig_closed encodeCommit_closed encodeSetTopology_closed
      encodeSetEffect_closed encodeSetDirectColors_closed triplets_def length_concat
      sum_list_triv min_def comp_def)

lemma HIDDevice_write_ok:
  assumes "writes_succeed d"
  shows "HIDDevice_write pkt d = (True, d\<lparr>written := written d @ [pkt]\<rparr>)"
proof -
  have "(\<lambda>n. write_ok d (Suc n)) = write_ok d"
    using assms by (auto simp: writes_succeed_def)
  then show ?thesis using assms by (simp add: HIDDevice_write_def writes_succeed_def)
qed

lemma writes_succeed_update [simp]:
  "writes_succeed (d\<lparr>written := w\<rparr>) = writes_succeed d"
  "writes_succeed (d\<lparr>incoming := r\<rparr>) = writes_succeed d"
  by (simp_all add: writes_succeed_def)

lemma sendPacket_ok:
  assumes "device p = Some d" "writes_succeed d" "length pkt = 65"
  shows "sendPacket pkt False p = (Inr None, p\<lparr>device := Some (d\<lparr>written := written d @ [pkt]\<rparr>)\<rparr>)"
  using assms by (simp add: sendPacket_def PACKET_SIZE_def HIDDevice_write_ok)

lemma sendPacket_read_ok:
  assumes "device p = Some d" "writes_succeed d" "length pkt = 65"
  shows "sendPacket pkt True p =
     (Inr (case incoming d of [] \<Rightarrow> None | response # rest \<Rightarrow> response),
      p\<lparr>device := Some (d\<lparr>written := written d @ [pkt], incoming := tl (incoming d)\<rparr>)\<rparr>)"
  using assms
  by (simp add: sendPacket_def PACKET_SIZE_def HIDDevice_write_ok HIDDevice_readTimeout_def
      split: list.splits)

lemma sendPacket_not_StateError:
  "fst (sendPacket pkt w p) = Inl e \<Longrightarrow> \<not> StateError e"
  by (auto simp: sendPacket_def split: option.splits if_splits prod.splits bool.splits)

lemma sendPacket_None:
  "device p = None \<Longrightarrow> sendPacket pkt w p = (Inl NotConnected, p)"
  by (simp add: sendPacket_def)

lemma setLEDCount_ok:
  assumes "device p = Some d" "writes_succeed d"
  shows "setLEDCount channel count p =
     (Inr (), p\<lparr>device := Some (d\<lparr>written := written d @ [encodeSetTopology channel count]\<rparr>)\<rparr>)"
  using assms by (simp add: setLEDCount_def sendPacket_ok)

lemma AuraProtocol_commit_ok:
  assumes "device p = Some d" "writes_succeed d"
  shows "AuraProtocol_commit p =
     (Inr (), p\<lparr>device := Some (d\<lparr>written := written d @ [encodeCommit]\<rparr>)\<rparr>)"
  using assms by (simp add: AuraProtocol_commit_def sendPacket_ok)

lemma setDirectLED_ok:
  assumes "device p = Some d" "writes_succeed d"
  shows "setDirectLED channel offset colors p =
     (Inr (), p\<lparr>device := Some (d\<lparr>written := written d @ [encodeSetDirectColors channel offset colors]\<rparr>)\<rparr>)"
  using assms by (simp add: setDirectLED_def sendPacket_ok)

lemma AuraProtocol_setEffect_ok:
  assumes "device p = Some d" "writes_succeed d"
  shows "AuraProtocol_setEffect channel mode r g b brightness p =
     (Inr (), p\<lparr>device := Some (d\<lparr>written := written d @
        [encodeSetEffect channel mode (default_arg 0 r) (default_arg 0 g) (default_arg 0 b)
           (default_arg 0xFF brightness)]\<rparr>)\<rparr>)"
  using assms by (simp add: AuraProtocol_setEffect_def sendPacket_ok)

lemma AuraProtocol_getConfig_ok:
  assumes "device p = Some d" "writes_succeed d"
  shows "AuraProtocol_getConfig p =
     (decodeConfig (case incoming d of [] \<Rightarrow> None | response # rest \<Rightarrow> response),
      p\<lparr>device := Some (d\<lparr>written := written d @ [encodeReadConfig], incoming := tl (incoming d)\<rparr>)\<rparr>)"
  using assms by (simp add: AuraProtocol_getConfig_def sendPacket_read_ok)

lemma setLEDCount_not_StateError:
  "fst (setLEDCount channel count p) = Inl e \<Longrightarrow> \<not> StateError e"
  using sendPacket_not_StateError [of "encodeSetTopology channel count" False p e]
  by (auto simp: setLEDCount_def split: prod.splits sum.splits)

lemma AuraProtocol_commit_not_StateError:
  "fst (AuraProtocol_commit p) = Inl e \<Longrightarrow> \<not> StateError e"
  using sendPacket_not_StateError [of encodeCommit False p e]
  by (auto simp: AuraProtocol_commit_def split: prod.splits sum.splits)

lemma setDirectLED_not_StateError:
  "fst (setDirectLED channel offset colors p) = Inl e \<Longrightarrow> \<not> StateError e"
  using sendPacket_not_StateError [of "encodeSetDirectColors channel offset colors" False p e]
  by (auto simp: setDirectLED_def split: prod.splits sum.splits)

lemma AuraProtocol_setEffect_not_StateError:
  "fst (AuraProtocol_setEffect channel mode r g b brightness p) = Inl e \<Longrightarrow> \<not> StateError e"
  using sendPacket_not_StateError
    [of "encodeSetEffect channel mode (default_arg 0 r) (default_arg 0 g) (default_arg 0 b)
           (default_arg 0xFF brightness)" False p e]
  by (auto simp: AuraProtocol_setEffect_def split: prod.splits sum.splits)

lemma setLEDCount_each_ok:
  assumes "device p = Some d" "writes_succeed d"
  shows "setLEDCount_each es p =
     (Inr (), p\<lparr>device := Some (d\<lparr>written := written d @
        map (\<lambda>(channel, count). encodeSetTopology (int channel) count) es\<rparr>)\<rparr>)"
  using assms
proof (induction es arbitrary: p d)
  case Nil
  then show ?case by simp
next
  case (Cons e es)
  obtain channel count where e: "e = (channel, count)" by (cases e)
  let ?d = "d\<lparr>written := written d @ [encodeSetTopology (int channel) count]\<rparr>"
  let ?p = "p\<lparr>device := Some ?d\<rparr>"
  have 1: "setLEDCount (int channel) count p = (Inr (), ?p)"
    using Cons.prems by (rule setLEDCount_ok)
  have 2: "device ?p = Some ?d" "writes_succeed ?d" using Cons.prems by simp_all
  show ?case
    unfolding e using 1 Cons.IH [OF 2] by simp
qed

lemma setLEDCount_each_not_StateError:
  "fst (setLEDCount_each es p) = Inl e \<Longrightarrow> \<not> StateError e"
proof (induction es arbitrary: p)
  case Nil
  then show ?case by simp
next
  case (Cons x es)
  obtain channel count where x: "x = (channel, count)" by (cases x)
  show ?case
  proof (cases "setLEDCount (int channel) count p")
    case (Pair res p')
    show ?thesis
    proof (cases res)
      case (Inl e')
      then have "e' = e" using Cons.prems Pair x by simp
      then show ?thesis using setLEDCount_not_StateError [of "int channel" count p e] Pair Inl by simp
    next
      case (Inr u)
      then show ?thesis using Cons.prems Pair x Cons.IH [of p'] by simp
    qed
  qed
qed

lemma setLEDCount_each_None:
  "device p = None \<Longrightarrow> es \<noteq> [] \<Longrightarrow> setLEDCount_each es p = (Inl NotConnected, p)"
  by (cases es) (auto simp: setLEDCount_def sendPacket_None)

lemma map_fst_entries_of:
  "map fst (entries_of t ks) = filter (\<lambda>k. map_of t k \<noteq> None) ks"
  by (induction ks) (auto split: option.splits)

lemma set_entries_of:
  "set (entries_of t ks) = {(k, v). k \<in> set ks \<and> map_of t k = Some v}"
  by (induction ks) (auto split: option.splits)

lemma set_OwnPropertyKeys: "set (OwnPropertyKeys t) = fst ` set t"
  by (auto simp: OwnPropertyKeys_def)

lemma distinct_OwnPropertyKeys: "distinct (OwnPropertyKeys t)"
  by (auto simp: OwnPropertyKeys_def)

lemma OwnPropertyKeys_array_index:
  assumes "array_index_keys t"
  shows "OwnPropertyKeys t = sort (remdups (map fst t))"
proof -
  have "filter array_index (map fst t) = map fst t"
    and "filter (\<lambda>k. \<not> array_index k) (map fst t) = []"
    using assms by (simp_all add: array_index_keys_def list_all_iff)
  then show ?thesis by (simp add: OwnPropertyKeys_def)
qed

lemma Object_entries_keys:
  "map fst (Object_entries t) = OwnPropertyKeys t"
proof -
  have "\<forall>k \<in> set (OwnPropertyKeys t). map_of t k \<noteq> None"
    by (auto simp: set_OwnPropertyKeys map_of_eq_None_iff)
  then show ?thesis
    by (simp add: Object_entries_def map_fst_entries_of)
qed

lemma distinct_Object_entries: "distinct (map fst (Object_entries t))"
  by (simp add: Object_entries_keys distinct_OwnPropertyKeys)

lemma Object_entries_ascending:
  "array_index_keys t \<Longrightarrow> sorted_wrt (<) (map fst (Object_entries t))"
  by (simp add: Object_entries_keys OwnPropertyKeys_array_index strict_sorted_iff)

lemma set_Object_entries:
  "set (Object_entries t) = {(channel, count). map_of t channel = Some count}"
  by (auto simp: Object_entries_def set_entries_of set_OwnPropertyKeys
      dest: map_of_SomeD intro: rev_image_eqI)

lemma array_index_keys_default [simp]: "array_index_keys default_topology"
  by (simp add: array_index_keys_def default_topology_def array_index_def)

lemma Object_entries_default:
  "Object_entries default_topology = [(0, 15), (1, 15), (2, 16)]"
  by (simp add: Object_entries_def OwnPropertyKeys_def default_topology_def array_index_def)

text \<open>
  Keys that are no array indices keep the order of their creation, after the array
  indices: the packets for this topology carry the channel bytes 0, 1, 0 (that is
  4294967296 modulo 256) and 255, in this order.
\<close>

lemma Object_entries_large_keys:
  "Object_entries [(4294967296, 1), (4294967295, 2), (1, 3), (0, 4)] =
     [(0, 4), (1, 3), (4294967296, 1), (4294967295, 2)]"
  by (simp add: Object_entries_def OwnPropertyKeys_def array_index_def)

lemma Object_entries_large_keys_channel_bytes:
  "map (\<lambda>(channel, count). take 5 (encodeSetTopology (int channel) count))
     (Object_entries [(4294967296, 1), (4294967295, 2), (1, 3), (0, 4)]) =
     [[0xEC, 0x52, 0x53, 0x00, 0x04], [0xEC, 0x52, 0x53, 0x01, 0x03],
      [0xEC, 0x52, 0x53, 0x00, 0x01], [0xEC, 0x52, 0x53, 0xFF, 0x02]]"
  unfolding Object_entries_large_keys
  by (simp add: encodeSetTopology_closed ToUint8_def)

section \<open>Properties of the protocol codec\<close>

text \<open>
  C9. Every packet the protocol builds (read configuration, set topology, commit, set
  effect, direct colours) is 65 bytes long, starts with the byte 0xEC, and is zero
  wherever the command writes no field: each packet is its command bytes and fields
  followed by zeros only.
\<close>

theorem packets_are_65_bytes_prefixed_and_zero_padded:
  "encodeReadConfig = [0xEC, 0xB0] @ replicate 63 0
   \<and> encodeSetTopology channel count =
       [0xEC, 0x52, 0x53, ToUint8 channel, ToUint8 count] @ replicate 60 0
   \<and> encodeCommit = [0xEC, 0x3F, 0x55] @ replicate 62 0
   \<and> encodeSetEffect channel mode r g b brightness =
       [0xEC, 0x35, ToUint8 channel, ToUint8 mode, ToUint8 r, ToUint8 g, ToUint8 b,
        ToUint8 brightness] @ replicate 57 0
   \<and> encodeSetDirectColors channel offset colors =
       [0xEC, 0x40, ToUint8 (js_bitor 0x80 channel), ToUint8 offset, ToUint8 (int (length colors))]
         @ triplets (take 20 colors) @ replicate (60 - 3 * min (length colors) 20) 0
   \<and> length encodeReadConfig = 65
   \<and> length (encodeSetTopology channel count) = 65
   \<and> length encodeCommit = 65
   \<and> length (encodeSetEffect channel mode r g b brightness) = 65
   \<and> length (encodeSetDirectColors channel offset colors) = 65
   \<and> encodeReadConfig ! 0 = 0xEC
   \<and> encodeSetTopology channel count ! 0 = 0xEC
   \<and> encodeCommit ! 0 = 0xEC
   \<and> encodeSetEffect channel mode r g b brightness ! 0 = 0xEC
   \<and> encodeSetDirectColors channel offset colors ! 0 = 0xEC"
proof (intro conjI)
  show "encodeReadConfig = [0xEC, 0xB0] @ replicate 63 0"
    by (rule encodeReadConfig_closed)
  show "encodeSetTopology channel count =
       [0xEC, 0x52, 0x53, ToUint8 channel, ToUint8 count] @ replicate 60 0"
    by (rule encodeSetTopology_closed)
  show "encodeCommit = [0xEC, 0x3F, 0x55] @ replicate 62 0"
    by (rule encodeCommit_closed)
  show "encodeSetEffect channel mode r g b brightness =
       [0xEC, 0x35, ToUint8 channel, ToUint8 mode, ToUint8 r, ToUint8 g, ToUint8 b,
        ToUint8 brightness] @ replicate 57 0"
    by (rule encodeSetEffect_closed)
  show "encodeSetDirectColors channel offset colors =
       [0xEC, 0x40, ToUint8 (js_bitor 0x80 channel), ToUint8 offset, ToUint8 (int (length colors))]
         @ triplets (take 20 colors) @ replicate (60 - 3 * min (length colors) 20) 0"
    by (rule encodeSetDirectColors_closed)
  show "length encodeReadConfig = 65" by simp
  show "length (encodeSetTopology channel count) = 65" by simp
  show "length encodeCommit = 65" by simp
  show "length (encodeSetEffect channel mode r g b brightness) = 65" by simp
  show "length (encodeSetDirectColors channel offset colors) = 65" by simp
  show "encodeReadConfig ! 0 = 0xEC" by (simp add: encodeReadConfig_closed)
  show "encodeSetTopology channel count ! 0 = 0xEC" by (simp add: encodeSetTopology_closed)
  show "encodeCommit ! 0 = 0xEC" by (simp add: encodeCommit_closed)
  show "encodeSetEffect channel mode r g b brightness ! 0 = 0xEC"
    by (simp add: encodeSetEffect_closed)
  show "encodeSetDirectColors channel offset colors ! 0 = 0xEC"
    by (simp add: encodeSetDirectColors_closed)
qed

lemma length_triplets: "length (triplets colors) = 3 * length colors"
  by (induction colors) (simp_all add: triplets_def)

text \<open>
  C2. The direct-colour packet holds the first \<open>min n 20\<close> colours of the sequence from
  byte 5 on, followed by zeros, but its count byte (byte 4) is the length \<open>n\<close> of the whole
  sequence as one byte, not the number of triplets encoded: for 21 colours the count byte
  is 21 while the 60 bytes after the header hold 20 triplets.
\<close>

theorem direct_color_count_byte_is_sequence_length:
  "encodeSetDirectColors channel offset colors ! 4 = ToUint8 (int (length colors))
   \<and> drop 5 (encodeSetDirectColors channel offset colors) =
       triplets (take 20 colors) @ replicate (60 - 3 * min (length colors) 20) 0
   \<and> length (triplets (take 20 colors)) = 3 * min (length colors) 20
   \<and> encodeSetDirectColors 2 0 (replicate 21 \<lparr>col_r = 255, col_g = 0, col_b = 0\<rparr>) ! 4 = 21
   \<and> drop 5 (encodeSetDirectColors 2 0 (replicate 21 \<lparr>col_r = 255, col_g = 0, col_b = 0\<rparr>))
       = concat (replicate 20 [255, 0, 0])"
proof (intro conjI)
  show "encodeSetDirectColors channel offset colors ! 4 = ToUint8 (int (length colors))"
    by (simp add: encodeSetDirectColors_closed)
  show "drop 5 (encodeSetDirectColors channel offset colors) =
       triplets (take 20 colors) @ replicate (60 - 3 * min (length colors) 20) 0"
    by (simp add: encodeSetDirectColors_closed)
  show "length (triplets (take 20 colors)) = 3 * min (length colors) 20"
    by (simp add: length_triplets)
  show "encodeSetDirectColors 2 0 (replicate 21 \<lparr>col_r = 255, col_g = 0, col_b = 0\<rparr>) ! 4 = 21"
    by code_simp
  show "drop 5 (encodeSetDirectColors 2 0 (replicate 21 \<lparr>col_r = 255, col_g = 0, col_b = 0\<rparr>))
       = concat (replicate 20 [255, 0, 0])"
    by code_simp
qed

section \<open>Properties of the session controller\<close>

lemma writes_succeed_example [simp]: "writes_succeed (example_device responses)"
  by (simp add: writes_succeed_def example_device_def)

subsection \<open>initTopology\<close>

lemma initTopology_DISCONNECTED:
  "state s = DISCONNECTED \<Longrightarrow> initTopology s = (Inl BSM_CannotInitTopology, s)"
  by (simp add: initTopology_def)

lemma initTopology_ok:
  assumes "state s \<noteq> DISCONNECTED" "device (protocol s) = Some d" "writes_succeed d"
  shows "initTopology s =
     (Inr (), s\<lparr>protocol := (protocol s)\<lparr>device := Some (d\<lparr>written := written d @
        map (\<lambda>(channel, count). encodeSetTopology (int channel) count)
          (Object_entries (topology s))\<rparr>)\<rparr>,
       state := RUNTIME\<rparr>)"
  using assms by (simp add: initTopology_def setLEDCount_each_ok)

lemma initTopology_not_StateError:
  assumes "state s \<noteq> DISCONNECTED" "fst (initTopology s) = Inl e"
  shows "\<not> StateError e"
proof (cases "setLEDCount_each (Object_entries (topology s)) (protocol s)")
  case (Pair res p')
  then show ?thesis
    using assms setLEDCount_each_not_StateError [of "Object_entries (topology s)" "protocol s" e]
    by (cases res) (simp_all add: initTopology_def)
qed

lemma initTopology_topology: "topology (snd (initTopology s)) = topology s"
  by (simp add: initTopology_def split: prod.splits sum.splits)

lemma initTopology_success_state:
  "fst (initTopology s) = Inr u \<Longrightarrow> state (snd (initTopology s)) = RUNTIME"
  by (auto simp: initTopology_def split: prod.splits sum.splits if_splits)

text \<open>
  C5. \<open>initTopology\<close> fails with a state error when the tracked state is
  \<open>DISCONNECTED\<close>. In any other state, on an open device that accepts the writes and
  for a configured topology whose keys are array indices, it sends exactly one
  set-topology packet for each (channel, count) pair of the topology, in ascending
  channel order, and leaves the state \<open>RUNTIME\<close>. (Each property of the topology is
  listed exactly once whatever the keys.) Called twice in a row from \<open>RUNTIME\<close> it
  leaves the state \<open>RUNTIME\<close> and the topology as it was.
\<close>

theorem initTopology_sends_topology_and_reaches_RUNTIME:
  "(state s = DISCONNECTED \<longrightarrow>
      initTopology s = (Inl BSM_CannotInitTopology, s) \<and> StateError BSM_CannotInitTopology)
   \<and> (state s \<noteq> DISCONNECTED \<and> device (protocol s) = Some d \<and> writes_succeed d
        \<and> array_index_keys (topology s) \<longrightarrow>
        initTopology s =
          (Inr (), s\<lparr>protocol := (protocol s)\<lparr>device := Some (d\<lparr>written := written d @
             map (\<lambda>(channel, count). encodeSetTopology (int channel) count)
               (Object_entries (topology s))\<rparr>)\<rparr>,
            state := RUNTIME\<rparr>)
        \<and> sorted_wrt (<) (map fst (Object_entries (topology s))))
   \<and> distinct (map fst (Object_entries (topology s)))
   \<and> set (Object_entries (topology s)) =
        {(channel, count). map_of (topology s) channel = Some count}
   \<and> (state s = RUNTIME \<and> device (protocol s) = Some d \<and> writes_succeed d \<longrightarrow>
        fst (initTopology s) = Inr ()
        \<and> fst (initTopology (snd (initTopology s))) = Inr ()
        \<and> state (snd (initTopology (snd (initTopology s)))) = RUNTIME
        \<and> topology (snd (initTopology (snd (initTopology s)))) = topology s)"
proof (intro conjI impI)
  assume "state s = DISCONNECTED"
  then show "initTopology s = (Inl BSM_CannotInitTopology, s)"
    by (rule initTopology_DISCONNECTED)
next
  show "StateError BSM_CannotInitTopology" by simp
next
  assume a: "state s \<noteq> DISCONNECTED \<and> device (protocol s) = Some d \<and> writes_succeed d
        \<and> array_index_keys (topology s)"
  then show "initTopology s =
          (Inr (), s\<lparr>protocol := (protocol s)\<lparr>device := Some (d\<lparr>written := written d @
             map (\<lambda>(channel, count). encodeSetTopology (int channel) count)
               (Object_entries (topology s))\<rparr>)\<rparr>,
            state := RUNTIME\<rparr>)"
    by (simp add: initTopology_ok)
  show "sorted_wrt (<) (map fst (Object_entries (topology s)))"
    using a by (simp add: Object_entries_ascending)
next
  show "distinct (map fst (Object_entries (topology s)))"
    by (rule distinct_Object_entries)
next
  show "set (Object_entries (topology s)) =
        {(channel, count). map_of (topology s) channel = Some count}"
    by (rule set_Object_entries)
next
  assume a: "state s = RUNTIME \<and> device (protocol s) = Some d \<and> writes_succeed d"
  then have 1: "initTopology s =
     (Inr (), s\<lparr>protocol := (protocol s)\<lparr>device := Some (d\<lparr>written := written d @
        map (\<lambda>(channel, count). encodeSetTopology (int channel) count)
          (Object_entries (topology s))\<rparr>)\<rparr>,
       state := RUNTIME\<rparr>)" (is "_ = (_, ?s1)")
    by (simp add: initTopology_ok)
  have b: "state ?s1 \<noteq> DISCONNECTED" "device (protocol ?s1) = Some (d\<lparr>written := written d @
        map (\<lambda>(channel, count). encodeSetTopology (int channel) count)
          (Object_entries (topology s))\<rparr>)" "writes_succeed (d\<lparr>written := written d @
        map (\<lambda>(channel, count). encodeSetTopology (int channel) count)
          (Object_entries (topology s))\<rparr>)"
    using a by simp_all
  have 2: "fst (initTopology ?s1) = Inr ()"
    by (subst initTopology_ok [OF b]) simp
  show "fst (initTopology s) = Inr ()" using 1 by simp
  show "fst (initTopology (snd (initTopology s))) = Inr ()" using 1 2 by simp
  show "state (snd (initTopology (snd (initTopology s)))) = RUNTIME"
    using 1 2 initTopology_success_state [of ?s1 "()"] by simp
  show "topology (snd (initTopology (snd (initTopology s)))) = topology s"
    by (simp add: initTopology_topology)
qed

text \<open>
  The default topology on a device that accepts every write: three packets, for the
  channels 0, 1, 2 in this order.
\<close>

theorem initTopology_witness:
  "initTopology (example_session LOCKED []) =
     (Inr (), \<lparr>protocol = \<lparr>device = Some \<lparr>written =
        [encodeSetTopology 0 15, encodeSetTopology 1 15, encodeSetTopology 2 16],
        write_ok = (\<lambda>n. True), incoming = []\<rparr>\<rparr>,
       state = RUNTIME, topology = default_topology\<rparr>)
   \<and> map fst (Object_entries (topology (example_session LOCKED []))) = [0, 1, 2]
   \<and> array_index_keys (topology (example_session LOCKED []))
   \<and> initTopology (new_SafeAuraController None) =
        (Inl BSM_CannotInitTopology, new_SafeAuraController None)
   \<and> state (snd (initTopology (snd (initTopology (example_session RUNTIME []))))) = RUNTIME
   \<and> topology (snd (initTopology (snd (initTopology (example_session RUNTIME []))))) =
        [(0, 15), (1, 15), (2, 16)]"
proof -
  note t = initTopology_sends_topology_and_reaches_RUNTIME
  have k: "array_index_keys (topology (example_session LOCKED []))"
    by (simp add: example_session_def)
  have h1: "state (example_session LOCKED []) \<noteq> DISCONNECTED
      \<and> device (protocol (example_session LOCKED [])) = Some (example_device [])
      \<and> writes_succeed (example_device [])
      \<and> array_index_keys (topology (example_session LOCKED []))"
    using k by (simp add: example_session_def)
  have h2: "state (new_SafeAuraController None) = DISCONNECTED"
    by (simp add: new_SafeAuraController_def)
  have h3: "state (example_session RUNTIME []) = RUNTIME
      \<and> device (protocol (example_session RUNTIME [])) = Some (example_device [])
      \<and> writes_succeed (example_device [])"
    by (simp add: example_session_def)
  note c1 = t [of "example_session LOCKED []" "example_device []",
      THEN conjunct2, THEN conjunct1, THEN mp, OF h1, THEN conjunct1]
  note c2 = t [of "new_SafeAuraController None", THEN conjunct1, THEN mp, OF h2, THEN conjunct1]
  note c3 = t [of "example_session RUNTIME []" "example_device []",
      THEN conjunct2, THEN conjunct2, THEN conjunct2, THEN conjunct2, THEN mp, OF h3]
  have "initTopology (example_session LOCKED []) =
     (Inr (), \<lparr>protocol = \<lparr>device = Some \<lparr>written =
        [encodeSetTopology 0 15, encodeSetTopology 1 15, encodeSetTopology 2 16],
        write_ok = (\<lambda>n. True), incoming = []\<rparr>\<rparr>,
       state = RUNTIME, topology = default_topology\<rparr>)"
    unfolding c1 by (simp add: example_session_def example_device_def Object_entries_default)
  moreover have "topology (example_session RUNTIME []) = [(0, 15), (1, 15), (2, 16)]"
    by (simp add: example_session_def default_topology_def)
  moreover have "map fst (Object_entries (topology (example_session LOCKED []))) = [0, 1, 2]"
    by (simp add: example_session_def Object_entries_default)
  ultimately show ?thesis using c2 c3 k by simp
qed

subsection \<open>connect\<close>

lemma connect_Present:
  "connect (Present d) s =
     initTopology (s\<lparr>protocol := (protocol s)\<lparr>device := Some d\<rparr>, state := LOCKED\<rparr>)"
  by (simp add: connect_def AuraProtocol_connect_def)

lemma connect_ok:
  assumes "writes_succeed d"
  shows "connect (Present d) s =
     (Inr (), s\<lparr>protocol := (protocol s)\<lparr>device := Some (d\<lparr>written := written d @
        map (\<lambda>(channel, count). encodeSetTopology (int channel) count)
          (Object_entries (topology s))\<rparr>)\<rparr>,
       state := RUNTIME\<rparr>)"
  unfolding connect_Present using assms by (subst initTopology_ok [of _ d]) simp_all

lemma connect_success_state:
  assumes "fst (connect env s) = Inr ()"
  shows "state (snd (connect env s)) = RUNTIME"
proof (cases env)
  case (Present d)
  then show ?thesis
    using assms initTopology_success_state unfolding Present connect_Present by blast
qed (use assms in \<open>simp_all add: connect_def AuraProtocol_connect_def\<close>)

text \<open>
  C6. A \<open>connect\<close> that returns leaves the tracked state \<open>RUNTIME\<close>, never
  \<open>LOCKED\<close>: once the device is open it sets the state to \<open>LOCKED\<close> and runs
  \<open>initTopology\<close>, whatever the state was before.
\<close>

theorem connect_success_leaves_RUNTIME:
  "(fst (connect env s) = Inr () \<longrightarrow> state (snd (connect env s)) = RUNTIME)
   \<and> connect (Present d) s =
       initTopology (s\<lparr>protocol := (protocol s)\<lparr>device := Some d\<rparr>, state := LOCKED\<rparr>)
   \<and> (writes_succeed d \<longrightarrow>
        connect (Present d) s =
          (Inr (), s\<lparr>protocol := (protocol s)\<lparr>device := Some (d\<lparr>written := written d @
             map (\<lambda>(channel, count). encodeSetTopology (int channel) count)
               (Object_entries (topology s))\<rparr>)\<rparr>,
            state := RUNTIME\<rparr>))"
  using connect_success_state [of env s] connect_Present [of d s] connect_ok [of d s]
  by blast

text \<open>
  Connecting a new session to a device that accepts every write succeeds.
\<close>

theorem connect_witness:
  "fst (connect (Present (example_device [])) (new_SafeAuraController None)) = Inr ()
   \<and> state (snd (connect (Present (example_device [])) (new_SafeAuraController None))) = RUNTIME
   \<and> writes_succeed (example_device [])"
proof -
  note t = connect_success_leaves_RUNTIME
    [of "Present (example_device [])" "new_SafeAuraController None" "example_device []"]
  have h: "writes_succeed (example_device [])" by simp
  note c3 = t [THEN conjunct2, THEN conjunct2, THEN mp, OF h]
  have 1: "fst (connect (Present (example_device [])) (new_SafeAuraController None)) = Inr ()"
    unfolding c3 by simp
  note c1 = t [THEN conjunct1, THEN mp, OF 1]
  show ?thesis using 1 c1 h by simp
qed

subsection \<open>commit\<close>

lemma commit_not_RUNTIME:
  "state s \<noteq> RUNTIME \<Longrightarrow> commit s = (Inl (BSM_CannotCommit (state s)), s)"
  by (simp add: commit_def)

lemma commit_ok:
  assumes "state s = RUNTIME" "device (protocol s) = Some d" "writes_succeed d"
  shows "commit s =
     (Inr (), s\<lparr>protocol := (protocol s)\<lparr>device := Some (d\<lparr>written := written d @ [encodeCommit]\<rparr>)\<rparr>,
       state := COMMITTED\<rparr>)"
  using assms by (simp add: commit_def AuraProtocol_commit_ok)

lemma commit_StateError_iff:
  "(\<exists>e. fst (commit s) = Inl e \<and> StateError e) \<longleftrightarrow> state s \<noteq> RUNTIME"
proof
  assume "\<exists>e. fst (commit s) = Inl e \<and> StateError e"
  then obtain e where e: "fst (commit s) = Inl e" "StateError e" by blast
  show "state s \<noteq> RUNTIME"
  proof
    assume r: "state s = RUNTIME"
    obtain res p' where c: "AuraProtocol_commit (protocol s) = (res, p')"
      by (cases "AuraProtocol_commit (protocol s)")
    then have "res = Inl e" using e(1) r by (cases res) (simp_all add: commit_def)
    then show False
      using AuraProtocol_commit_not_StateError [of "protocol s" e] c e(2) by simp
  qed
next
  assume "state s \<noteq> RUNTIME"
  then show "\<exists>e. fst (commit s) = Inl e \<and> StateError e"
    by (simp add: commit_not_RUNTIME)
qed

text \<open>
  C1, as the code has it. \<open>commit\<close> fails with a state error exactly when the tracked
  state is not \<open>RUNTIME\<close> (that is in \<open>DISCONNECTED\<close>, \<open>LOCKED\<close> and also
  \<open>COMMITTED\<close>), leaving the session as it was and sending nothing. From \<open>RUNTIME\<close>,
  on an open device that accepts the write, it sends the commit packet and leaves the
  state \<open>COMMITTED\<close>.
\<close>

theorem commit_succeeds_only_from_RUNTIME:
  "((\<exists>e. fst (commit s) = Inl e \<and> StateError e) \<longleftrightarrow> state s \<noteq> RUNTIME)
   \<and> (state s \<noteq> RUNTIME \<longrightarrow> commit s = (Inl (BSM_CannotCommit (state s)), s))
   \<and> (state s = RUNTIME \<and> device (protocol s) = Some d \<and> writes_succeed d \<longrightarrow>
        commit s =
          (Inr (), s\<lparr>protocol := (protocol s)\<lparr>device :=
                        Some (d\<lparr>written := written d @ [encodeCommit]\<rparr>)\<rparr>,
                     state := COMMITTED\<rparr>))"
  using commit_StateError_iff [of s] commit_not_RUNTIME [of s] commit_ok [of s d]
  by blast

text \<open>
  \<open>commit\<close> on sessions in each of the four states.
\<close>

theorem commit_witness:
  "commit (example_session RUNTIME []) =
     (Inr (), \<lparr>protocol = \<lparr>device = Some \<lparr>written = [encodeCommit], write_ok = (\<lambda>n. True),
                                        incoming = []\<rparr>\<rparr>,
               state = COMMITTED, topology = default_topology\<rparr>)
   \<and> commit (example_session LOCKED []) =
       (Inl (BSM_CannotCommit LOCKED), example_session LOCKED [])
   \<and> commit (example_session COMMITTED []) =
       (Inl (BSM_CannotCommit COMMITTED), example_session COMMITTED [])
   \<and> commit (new_SafeAuraController None) =
       (Inl (BSM_CannotCommit DISCONNECTED), new_SafeAuraController None)"
proof -
  note t = commit_succeeds_only_from_RUNTIME
  have h: "state (example_session RUNTIME []) = RUNTIME
      \<and> device (protocol (example_session RUNTIME [])) = Some (example_device [])
      \<and> writes_succeed (example_device [])"
    by (simp add: example_session_def)
  note c3 = t [of "example_session RUNTIME []" "example_device []",
      THEN conjunct2, THEN conjunct2, THEN mp, OF h]
  have l: "state (example_session LOCKED []) \<noteq> RUNTIME"
    and c: "state (example_session COMMITTED []) \<noteq> RUNTIME"
    and n: "state (new_SafeAuraController None) \<noteq> RUNTIME"
    by (simp_all add: example_session_def new_SafeAuraController_def)
  note cl = t [of "example_session LOCKED []", THEN conjunct2, THEN conjunct1, THEN mp, OF l]
  note cc = t [of "example_session COMMITTED []", THEN conjunct2, THEN conjunct1, THEN mp, OF c]
  note cn = t [of "new_SafeAuraController None", THEN conjunct2, THEN conjunct1, THEN mp, OF n]
  show ?thesis
    unfolding c3 cl cc cn
    by (simp add: example_session_def example_device_def new_SafeAuraController_def)
qed

text \<open>
  C1 as stated fails: after a successful \<open>connect\<close> and a successful \<open>commit\<close> the
  state is \<open>COMMITTED\<close>, and a second \<open>commit\<close> is rejected with a state error.
\<close>

theorem second_commit_fails_from_COMMITTED:
  "fst (commit (snd (connect (Present (example_device [])) (new_SafeAuraController None)))) = Inr ()
   \<and> state (snd (commit (snd (connect (Present (example_device []))
        (new_SafeAuraController None))))) = COMMITTED
   \<and> fst (commit (snd (commit (snd (connect (Present (example_device []))
        (new_SafeAuraController None)))))) = Inl (BSM_CannotCommit COMMITTED)
   \<and> StateError (BSM_CannotCommit COMMITTED)"
  by (simp add: connect_ok commit_ok commit_not_RUNTIME)

subsection \<open>The guard of the colour and effect operations\<close>

lemma ensureRuntime_DISCONNECTED:
  "state s = DISCONNECTED \<Longrightarrow> ensureRuntime s = (Inl BSM_NotConnected, s)"
  by (simp add: ensureRuntime_def)

lemma ensureRuntime_LOCKED:
  "state s = LOCKED \<Longrightarrow> ensureRuntime s = initTopology s"
  by (simp add: ensureRuntime_def)

lemma ensureRuntime_ready:
  "state s = RUNTIME \<or> state s = COMMITTED \<Longrightarrow> ensureRuntime s = (Inr (), s)"
  by (auto simp: ensureRuntime_def)

lemma ensureRuntime_not_StateError:
  assumes "state s \<noteq> DISCONNECTED" "fst (ensureRuntime s) = Inl e"
  shows "\<not> StateError e"
  using assms initTopology_not_StateError [of s e]
  by (auto simp: ensureRuntime_def split: if_splits)

lemma ensureRuntime_topology: "topology (snd (ensureRuntime s)) = topology s"
  by (simp add: ensureRuntime_def initTopology_topology)

lemma ensureRuntime_ok:
  assumes "state s \<noteq> DISCONNECTED" "device (protocol s) = Some d" "writes_succeed d"
  shows "ensureRuntime s =
     (Inr (), s\<lparr>protocol := (protocol s)\<lparr>device := Some (d\<lparr>written := written d @
        (if state s = LOCKED
         then map (\<lambda>(channel, count). encodeSetTopology (int channel) count)
                (Object_entries (topology s))
         else [])\<rparr>)\<rparr>,
       state := (if state s = LOCKED then RUNTIME else state s)\<rparr>)"
proof (cases "state s = LOCKED")
  case True
  then show ?thesis using assms by (simp add: ensureRuntime_LOCKED initTopology_ok)
next
  case False
  then have "ensureRuntime s = (Inr (), s)" using assms(1) by (simp add: ensureRuntime_def)
  moreover have "(protocol s)\<lparr>device := Some (d\<lparr>written := written d @ []\<rparr>)\<rparr> = protocol s"
    using assms(2) by simp
  ultimately show ?thesis using False by simp
qed

text \<open>
  The three operations share one shape: the guard, then a body that sends one packet.
\<close>

lemma guarded_DISCONNECTED:
  assumes "state s = DISCONNECTED"
  shows "(case ensureRuntime s of (Inl e, s') \<Rightarrow> (Inl e, s') | (Inr u, s') \<Rightarrow> body s')
         = (Inl BSM_NotConnected, s)"
  using assms by (simp add: ensureRuntime_DISCONNECTED)

lemma guarded_StateError_iff:
  assumes body: "\<And>s' e. fst (body s') = Inl e \<Longrightarrow> \<not> StateError e"
  shows "(\<exists>e. fst (case ensureRuntime s of (Inl e, s') \<Rightarrow> (Inl e, s') | (Inr u, s') \<Rightarrow> body s')
              = Inl e \<and> StateError e) \<longleftrightarrow> state s = DISCONNECTED"
proof (cases "state s = DISCONNECTED")
  case True
  then show ?thesis by (simp add: ensureRuntime_DISCONNECTED)
next
  case False
  obtain res s' where g: "ensureRuntime s = (res, s')" by (cases "ensureRuntime s")
  show ?thesis
  proof (cases res)
    case (Inl e')
    then have "\<not> StateError e'"
      using ensureRuntime_not_StateError [OF False, of e'] g by simp
    then show ?thesis using False g Inl by simp
  next
    case (Inr u)
    then show ?thesis using False g body [of s'] by auto
  qed
qed

lemma guarded_LOCKED:
  assumes "state s = LOCKED"
  shows "(case ensureRuntime s of (Inl e, s') \<Rightarrow> (Inl e, s') | (Inr u, s') \<Rightarrow> body s')
       = (case initTopology s of
            (Inl e, s') \<Rightarrow> (Inl e, s')
          | (Inr u, s') \<Rightarrow>
              (case ensureRuntime s' of (Inl e, s'') \<Rightarrow> (Inl e, s'') | (Inr u, s'') \<Rightarrow> body s''))"
proof -
  obtain res s' where i: "initTopology s = (res, s')" by (cases "initTopology s")
  show ?thesis
  proof (cases res)
    case (Inl e)
    then show ?thesis using assms i by (simp add: ensureRuntime_LOCKED)
  next
    case (Inr u)
    then have "state s' = RUNTIME" using initTopology_success_state [of s u] i by simp
    then have "ensureRuntime s' = (Inr (), s')" by (simp add: ensureRuntime_ready)
    then show ?thesis using assms i Inr by (simp add: ensureRuntime_LOCKED)
  qed
qed

subsection \<open>setLED, setAllLEDs, setEffect\<close>

lemma setLED_body_not_StateError:
  "fst (case setDirectLED channel offset colors (protocol s') of
          (res, p') \<Rightarrow> (res, s'\<lparr>protocol := p'\<rparr>)) = Inl e \<Longrightarrow> \<not> StateError e"
  using setDirectLED_not_StateError [of channel offset colors "protocol s'" e]
  by (simp split: prod.splits)

lemma setAllLEDs_body_not_StateError:
  assumes "fst (case Array_fill count c of
          Inl e \<Rightarrow> (Inl e, s')
        | Inr colors \<Rightarrow>
            (case setDirectLED channel 0 colors (protocol s') of
               (res, p') \<Rightarrow> (res, s'\<lparr>protocol := p'\<rparr>))) = Inl e"
  shows "\<not> StateError e"
proof (cases "Array_fill count c")
  case (Inl e')
  then have "e' = RangeError" by (simp add: Array_fill_def split: if_splits)
  then show ?thesis using assms Inl by auto
next
  case (Inr colors)
  then show ?thesis
    using assms
      setLED_body_not_StateError [where channel = channel and offset = 0 and colors = colors
        and s' = s' and e = e]
    by simp
qed

lemma setEffect_body_not_StateError:
  "fst (case AuraProtocol_setEffect channel mode r g b brightness (protocol s') of
          (res, p') \<Rightarrow> (res, s'\<lparr>protocol := p'\<rparr>)) = Inl e \<Longrightarrow> \<not> StateError e"
  using AuraProtocol_setEffect_not_StateError [of channel mode r g b brightness "protocol s'" e]
  by (simp split: prod.splits)

lemma setLED_StateError_iff:
  "(\<exists>e. fst (setLED channel ledIndex r g b s) = Inl e \<and> StateError e) \<longleftrightarrow> state s = DISCONNECTED"
  unfolding setLED_def by (rule guarded_StateError_iff) (rule setLED_body_not_StateError)

lemma setAllLEDs_StateError_iff:
  "(\<exists>e. fst (setAllLEDs channel r g b s) = Inl e \<and> StateError e) \<longleftrightarrow> state s = DISCONNECTED"
  unfolding setAllLEDs_def Let_def
  by (rule guarded_StateError_iff) (rule setAllLEDs_body_not_StateError)

lemma setEffect_StateError_iff:
  "(\<exists>e. fst (setEffect channel mode r g b brightness s) = Inl e \<and> StateError e)
     \<longleftrightarrow> state s = DISCONNECTED"
  unfolding setEffect_def by (rule guarded_StateError_iff) (rule setEffect_body_not_StateError)

lemma setLED_DISCONNECTED:
  "state s = DISCONNECTED \<Longrightarrow> setLED channel ledIndex r g b s = (Inl BSM_NotConnected, s)"
  unfolding setLED_def by (rule guarded_DISCONNECTED)

lemma setAllLEDs_DISCONNECTED:
  "state s = DISCONNECTED \<Longrightarrow> setAllLEDs channel r g b s = (Inl BSM_NotConnected, s)"
  unfolding setAllLEDs_def Let_def by (rule guarded_DISCONNECTED)

lemma setEffect_DISCONNECTED:
  "state s = DISCONNECTED \<Longrightarrow>
     setEffect channel mode r g b brightness s = (Inl BSM_NotConnected, s)"
  unfolding setEffect_def by (rule guarded_DISCONNECTED)

lemma setLED_LOCKED:
  "state s = LOCKED \<Longrightarrow>
     setLED channel ledIndex r g b s =
       (case initTopology s of
          (Inl e, s') \<Rightarrow> (Inl e, s')
        | (Inr u, s') \<Rightarrow> setLED channel ledIndex r g b s')"
  unfolding setLED_def by (rule guarded_LOCKED)

lemma setAllLEDs_LOCKED:
  "state s = LOCKED \<Longrightarrow>
     setAllLEDs channel r g b s =
       (case initTopology s of
          (Inl e, s') \<Rightarrow> (Inl e, s')
        | (Inr u, s') \<Rightarrow> setAllLEDs channel r g b s')"
  unfolding setAllLEDs_def Let_def by (rule guarded_LOCKED)

lemma setEffect_LOCKED:
  "state s = LOCKED \<Longrightarrow>
     setEffect channel mode r g b brightness s =
       (case initTopology s of
          (Inl e, s') \<Rightarrow> (Inl e, s')
        | (Inr u, s') \<Rightarrow> setEffect channel mode r g b brightness s')"
  unfolding setEffect_def by (rule guarded_LOCKED)

lemma setLED_ok:
  assumes "state s \<noteq> DISCONNECTED" "device (protocol s) = Some d" "writes_succeed d"
  shows "setLED channel ledIndex r g b s =
     (Inr (), s\<lparr>protocol := (protocol s)\<lparr>device := Some (d\<lparr>written := written d @
        (if state s = LOCKED
         then map (\<lambda>(channel, count). encodeSetTopology (int channel) count)
                (Object_entries (topology s))
         else [])
        @ [encodeSetDirectColors channel ledIndex [\<lparr>col_r = r, col_g = g, col_b = b\<rparr>]]\<rparr>)\<rparr>,
       state := (if state s = LOCKED then RUNTIME else state s)\<rparr>)"
  using assms
  by (simp add: setLED_def ensureRuntime_ok [OF assms] setDirectLED_ok)

lemma setEffect_ok:
  assumes "state s \<noteq> DISCONNECTED" "device (protocol s) = Some d" "writes_succeed d"
  shows "setEffect channel mode r g b brightness s =
     (Inr (), s\<lparr>protocol := (protocol s)\<lparr>device := Some (d\<lparr>written := written d @
        (if state s = LOCKED
         then map (\<lambda>(channel, count). encodeSetTopology (int channel) count)
                (Object_entries (topology s))
         else [])
        @ [encodeSetEffect channel mode (default_arg 0 r) (default_arg 0 g) (default_arg 0 b)
             (default_arg 0xFF brightness)]\<rparr>)\<rparr>,
       state := (if state s = LOCKED then RUNTIME else state s)\<rparr>)"
  using assms
  by (simp add: setEffect_def ensureRuntime_ok [OF assms] AuraProtocol_setEffect_ok default_arg_def)

lemma setAllLEDs_ok:
  assumes "state s \<noteq> DISCONNECTED" "device (protocol s) = Some d" "writes_succeed d"
    and "count = (case Topology_get (topology s) channel of
                    None \<Rightarrow> 16 | Some c \<Rightarrow> if c = 0 then 16 else c)"
    and "0 \<le> count" "count < 2 ^ 32"
  shows "setAllLEDs channel r g b s =
     (Inr (), s\<lparr>protocol := (protocol s)\<lparr>device := Some (d\<lparr>written := written d @
        (if state s = LOCKED
         then map (\<lambda>(channel, count). encodeSetTopology (int channel) count)
                (Object_entries (topology s))
         else [])
        @ [encodeSetDirectColors channel 0
             (replicate (nat count) \<lparr>col_r = r, col_g = g, col_b = b\<rparr>)]\<rparr>)\<rparr>,
       state := (if state s = LOCKED then RUNTIME else state s)\<rparr>)"
proof -
  have c: "(case Topology_get (topology s) channel of
              None \<Rightarrow> 16 | Some c \<Rightarrow> if c = 0 then 16 else c) = count"
    using assms(4) by simp
  have f: "Array_fill count \<lparr>col_r = r, col_g = g, col_b = b\<rparr>
             = Inr (replicate (nat count) \<lparr>col_r = r, col_g = g, col_b = b\<rparr>)"
    using assms(5,6) by (simp add: Array_fill_def)
  show ?thesis
    using assms(1-3)
    by (simp add: setAllLEDs_def ensureRuntime_ok [OF assms(1-3)] Let_def c f setDirectLED_ok)
qed


text \<open>
  C7. Each of \<open>setLED\<close>, \<open>setAllLEDs\<close> and \<open>setEffect\<close> fails with a state error
  exactly when the tracked state is \<open>DISCONNECTED\<close> (and then changes nothing). In
  \<open>LOCKED\<close> it first runs \<open>initTopology\<close> and, when that succeeds, proceeds as it does
  from \<open>RUNTIME\<close>; on an open device that accepts the writes it therefore succeeds,
  having sent the topology packets and then its own packet, and leaves the state
  \<open>RUNTIME\<close>. (For \<open>setAllLEDs\<close> the number \<open>n\<close> of colours is the channel's count,
  or 16 when there is none; a count that is no array length raises \<open>RangeError\<close>.)
\<close>

theorem color_and_effect_operations_guard:
  "((\<exists>e. fst (setLED channel ledIndex r g b s) = Inl e \<and> StateError e)
      \<longleftrightarrow> state s = DISCONNECTED)
   \<and> ((\<exists>e. fst (setAllLEDs channel r g b s) = Inl e \<and> StateError e)
      \<longleftrightarrow> state s = DISCONNECTED)
   \<and> ((\<exists>e. fst (setEffect channel mode er eg eb brightness s) = Inl e \<and> StateError e)
      \<longleftrightarrow> state s = DISCONNECTED)
   \<and> (state s = DISCONNECTED \<longrightarrow>
        setLED channel ledIndex r g b s = (Inl BSM_NotConnected, s)
        \<and> setAllLEDs channel r g b s = (Inl BSM_NotConnected, s)
        \<and> setEffect channel mode er eg eb brightness s = (Inl BSM_NotConnected, s))
   \<and> (state s = LOCKED \<longrightarrow>
        setLED channel ledIndex r g b s =
          (case initTopology s of
             (Inl e, s') \<Rightarrow> (Inl e, s')
           | (Inr u, s') \<Rightarrow> setLED channel ledIndex r g b s')
        \<and> setAllLEDs channel r g b s =
          (case initTopology s of
             (Inl e, s') \<Rightarrow> (Inl e, s')
           | (Inr u, s') \<Rightarrow> setAllLEDs channel r g b s')
        \<and> setEffect channel mode er eg eb brightness s =
          (case initTopology s of
             (Inl e, s') \<Rightarrow> (Inl e, s')
           | (Inr u, s') \<Rightarrow> setEffect channel mode er eg eb brightness s'))
   \<and> (state s = LOCKED \<and> device (protocol s) = Some d \<and> writes_succeed d \<longrightarrow>
        setLED channel ledIndex r g b s =
          (Inr (), s\<lparr>protocol := (protocol s)\<lparr>device := Some (d\<lparr>written := written d @
             map (\<lambda>(channel, count). encodeSetTopology (int channel) count)
               (Object_entries (topology s))
             @ [encodeSetDirectColors channel ledIndex [\<lparr>col_r = r, col_g = g, col_b = b\<rparr>]]\<rparr>)\<rparr>,
            state := RUNTIME\<rparr>)
        \<and> setEffect channel mode er eg eb brightness s =
          (Inr (), s\<lparr>protocol := (protocol s)\<lparr>device := Some (d\<lparr>written := written d @
             map (\<lambda>(channel, count). encodeSetTopology (int channel) count)
               (Object_entries (topology s))
             @ [encodeSetEffect channel mode (default_arg 0 er) (default_arg 0 eg)
                  (default_arg 0 eb) (default_arg 0xFF brightness)]\<rparr>)\<rparr>,
            state := RUNTIME\<rparr>)
        \<and> (n = (case Topology_get (topology s) channel of
                    None \<Rightarrow> 16 | Some c \<Rightarrow> if c = 0 then 16 else c)
             \<and> 0 \<le> n \<and> n < 2 ^ 32 \<longrightarrow>
             setAllLEDs channel r g b s =
               (Inr (), s\<lparr>protocol := (protocol s)\<lparr>device := Some (d\<lparr>written := written d @
                  map (\<lambda>(channel, count). encodeSetTopology (int channel) count)
                    (Object_entries (topology s))
                  @ [encodeSetDirectColors channel 0
                       (replicate (nat n) \<lparr>col_r = r, col_g = g, col_b = b\<rparr>)]\<rparr>)\<rparr>,
                 state := RUNTIME\<rparr>)))"
proof (intro conjI impI)
  show "(\<exists>e. fst (setLED channel ledIndex r g b s) = Inl e \<and> StateError e)
      \<longleftrightarrow> state s = DISCONNECTED"
    by (rule setLED_StateError_iff)
  show "(\<exists>e. fst (setAllLEDs channel r g b s) = Inl e \<and> StateError e)
      \<longleftrightarrow> state s = DISCONNECTED"
    by (rule setAllLEDs_StateError_iff)
  show "(\<exists>e. fst (setEffect channel mode er eg eb brightness s) = Inl e \<and> StateError e)
      \<longleftrightarrow> state s = DISCONNECTED"
    by (rule setEffect_StateError_iff)
next
  assume a: "state s = DISCONNECTED"
  show "setLED channel ledIndex r g b s = (Inl BSM_NotConnected, s)"
    using a by (rule setLED_DISCONNECTED)
  show "setAllLEDs channel r g b s = (Inl BSM_NotConnected, s)"
    using a by (rule setAllLEDs_DISCONNECTED)
  show "setEffect channel mode er eg eb brightness s = (Inl BSM_NotConnected, s)"
    using a by (rule setEffect_DISCONNECTED)
next
  assume a: "state s = LOCKED"
  show "setLED channel ledIndex r g b s =
          (case initTopology s of
             (Inl e, s') \<Rightarrow> (Inl e, s')
           | (Inr u, s') \<Rightarrow> setLED channel ledIndex r g b s')"
    using a by (rule setLED_LOCKED)
  show "setAllLEDs channel r g b s =
          (case initTopology s of
             (Inl e, s') \<Rightarrow> (Inl e, s')
           | (Inr u, s') \<Rightarrow> setAllLEDs channel r g b s')"
    using a by (rule setAllLEDs_LOCKED)
  show "setEffect channel mode er eg eb brightness s =
          (case initTopology s of
             (Inl e, s') \<Rightarrow> (Inl e, s')
           | (Inr u, s') \<Rightarrow> setEffect channel mode er eg eb brightness s')"
    using a by (rule setEffect_LOCKED)
next
  assume a: "state s = LOCKED \<and> device (protocol s) = Some d \<and> writes_succeed d"
  then have h: "state s \<noteq> DISCONNECTED" "device (protocol s) = Some d" "writes_succeed d"
    and l: "state s = LOCKED"
    by simp_all
  show "setLED channel ledIndex r g b s =
          (Inr (), s\<lparr>protocol := (protocol s)\<lparr>device := Some (d\<lparr>written := written d @
             map (\<lambda>(channel, count). encodeSetTopology (int channel) count)
               (Object_entries (topology s))
             @ [encodeSetDirectColors channel ledIndex [\<lparr>col_r = r, col_g = g, col_b = b\<rparr>]]\<rparr>)\<rparr>,
            state := RUNTIME\<rparr>)"
    unfolding setLED_ok [OF h] using l by simp
  show "setEffect channel mode er eg eb brightness s =
          (Inr (), s\<lparr>protocol := (protocol s)\<lparr>device := Some (d\<lparr>written := written d @
             map (\<lambda>(channel, count). encodeSetTopology (int channel) count)
               (Object_entries (topology s))
             @ [encodeSetEffect channel mode (default_arg 0 er) (default_arg 0 eg)
                  (default_arg 0 eb) (default_arg 0xFF brightness)]\<rparr>)\<rparr>,
            state := RUNTIME\<rparr>)"
    unfolding setEffect_ok [OF h] using l by simp
  assume "n = (case Topology_get (topology s) channel of
                    None \<Rightarrow> 16 | Some c \<Rightarrow> if c = 0 then 16 else c)
             \<and> 0 \<le> n \<and> n < 2 ^ 32"
  then have c: "n = (case Topology_get (topology s) channel of
                    None \<Rightarrow> 16 | Some c \<Rightarrow> if c = 0 then 16 else c)" "0 \<le> n" "n < 2 ^ 32"
    by simp_all
  show "setAllLEDs channel r g b s =
               (Inr (), s\<lparr>protocol := (protocol s)\<lparr>device := Some (d\<lparr>written := written d @
                  map (\<lambda>(channel, count). encodeSetTopology (int channel) count)
                    (Object_entries (topology s))
                  @ [encodeSetDirectColors channel 0
                       (replicate (nat n) \<lparr>col_r = r, col_g = g, col_b = b\<rparr>)]\<rparr>)\<rparr>,
                 state := RUNTIME\<rparr>)"
    unfolding setAllLEDs_ok [OF h c] using l by simp
qed

text \<open>
  The operations on a new (disconnected) session and on a locked session with the
  default topology.
\<close>

theorem color_and_effect_operations_witness:
  "setLED 2 9 255 0 0 (new_SafeAuraController None) =
     (Inl BSM_NotConnected, new_SafeAuraController None)
   \<and> setLED 2 9 255 0 0 (example_session LOCKED []) =
     (Inr (), \<lparr>protocol = \<lparr>device = Some \<lparr>written =
        [encodeSetTopology 0 15, encodeSetTopology 1 15, encodeSetTopology 2 16,
         encodeSetDirectColors 2 9 [\<lparr>col_r = 255, col_g = 0, col_b = 0\<rparr>]],
        write_ok = (\<lambda>n. True), incoming = []\<rparr>\<rparr>,
       state = RUNTIME, topology = default_topology\<rparr>)
   \<and> setAllLEDs 1 0 0 255 (example_session LOCKED []) =
     (Inr (), \<lparr>protocol = \<lparr>device = Some \<lparr>written =
        [encodeSetTopology 0 15, encodeSetTopology 1 15, encodeSetTopology 2 16,
         encodeSetDirectColors 1 0 (replicate 15 \<lparr>col_r = 0, col_g = 0, col_b = 255\<rparr>)],
        write_ok = (\<lambda>n. True), incoming = []\<rparr>\<rparr>,
       state = RUNTIME, topology = default_topology\<rparr>)"
proof -
  note t = color_and_effect_operations_guard
  have h1: "state (new_SafeAuraController None) = DISCONNECTED"
    by (simp add: new_SafeAuraController_def)
  have h2: "state (example_session LOCKED []) = LOCKED
      \<and> device (protocol (example_session LOCKED [])) = Some (example_device [])
      \<and> writes_succeed (example_device [])"
    by (simp add: example_session_def)
  have h3: "(15::int) = (case Topology_get (topology (example_session LOCKED [])) 1 of
                    None \<Rightarrow> 16 | Some c \<Rightarrow> if c = 0 then 16 else c)
             \<and> 0 \<le> (15::int) \<and> (15::int) < 2 ^ 32"
    by (simp add: example_session_def default_topology_def Topology_get_def)
  note c1 = t [of 2 9 255 0 0 "new_SafeAuraController None",
      THEN conjunct2, THEN conjunct2, THEN conjunct2, THEN conjunct1, THEN mp, OF h1,
      THEN conjunct1]
  note c2 = t [of 2 9 255 0 0 "example_session LOCKED []" _ _ _ _ _ "example_device []",
      THEN conjunct2, THEN conjunct2, THEN conjunct2, THEN conjunct2, THEN conjunct2,
      THEN mp, OF h2, THEN conjunct1]
  note c3 = t [of 1 _ 0 0 255 "example_session LOCKED []" _ _ _ _ _ "example_device []" 15,
      THEN conjunct2, THEN conjunct2, THEN conjunct2, THEN conjunct2, THEN conjunct2,
      THEN mp, OF h2, THEN conjunct2, THEN conjunct2, THEN mp, OF h3]
  show ?thesis
    unfolding c1 c2 c3
    by (simp add: example_session_def example_device_def Object_entries_default)
qed

subsection \<open>setAllLEDs on a channel without a count\<close>

lemma encodeSetDirectColors_16:
  "encodeSetDirectColors channel 0 (replicate 16 \<lparr>col_r = r, col_g = g, col_b = b\<rparr>) =
     [0xEC, 0x40, ToUint8 (js_bitor 0x80 channel), 0, 16]
       @ concat (replicate 16 [ToUint8 r, ToUint8 g, ToUint8 b]) @ replicate 12 0"
  by (simp add: encodeSetDirectColors_closed triplets_def ToUint8_def map_replicate_const)

text \<open>
  C10. For a channel that has no entry in the topology, or whose entry is 0,
  \<open>setAllLEDs\<close> does what it would do for a count of 16: after the guard it issues one
  direct-colour command holding 16 copies of the colour. In a connected session on a
  device that accepts the writes it succeeds, and that packet is the only one it adds
  after the topology packets of the guard (sent from \<open>LOCKED\<close> only).
\<close>

theorem setAllLEDs_falls_back_to_16:
  "(Topology_get (topology s) channel = None \<or> Topology_get (topology s) channel = Some 0) \<longrightarrow>
     setAllLEDs channel r g b s =
       (case ensureRuntime s of
          (Inl e, s') \<Rightarrow> (Inl e, s')
        | (Inr u, s') \<Rightarrow>
            (case setDirectLED channel 0 (replicate 16 \<lparr>col_r = r, col_g = g, col_b = b\<rparr>)
                    (protocol s') of
               (res, p') \<Rightarrow> (res, s'\<lparr>protocol := p'\<rparr>)))
     \<and> (state s \<noteq> DISCONNECTED \<and> device (protocol s) = Some d \<and> writes_succeed d \<longrightarrow>
          setAllLEDs channel r g b s =
            (Inr (), s\<lparr>protocol := (protocol s)\<lparr>device := Some (d\<lparr>written := written d @
               (if state s = LOCKED
                then map (\<lambda>(channel, count). encodeSetTopology (int channel) count)
                       (Object_entries (topology s))
                else [])
               @ [encodeSetDirectColors channel 0
                    (replicate 16 \<lparr>col_r = r, col_g = g, col_b = b\<rparr>)]\<rparr>)\<rparr>,
              state := (if state s = LOCKED then RUNTIME else state s)\<rparr>))
     \<and> encodeSetDirectColors channel 0 (replicate 16 \<lparr>col_r = r, col_g = g, col_b = b\<rparr>) =
         [0xEC, 0x40, ToUint8 (js_bitor 0x80 channel), 0, 16]
           @ concat (replicate 16 [ToUint8 r, ToUint8 g, ToUint8 b]) @ replicate 12 0"
proof (intro impI conjI)
  assume a: "Topology_get (topology s) channel = None
             \<or> Topology_get (topology s) channel = Some 0"
  then have c: "(16::int) = (case Topology_get (topology s) channel of
                    None \<Rightarrow> 16 | Some c \<Rightarrow> if c = 0 then 16 else c)"
    by auto
  obtain res s' where g: "ensureRuntime s = (res, s')" by (cases "ensureRuntime s")
  have t: "topology s' = topology s" using ensureRuntime_topology [of s] g by simp
  show "setAllLEDs channel r g b s =
       (case ensureRuntime s of
          (Inl e, s') \<Rightarrow> (Inl e, s')
        | (Inr u, s') \<Rightarrow>
            (case setDirectLED channel 0 (replicate 16 \<lparr>col_r = r, col_g = g, col_b = b\<rparr>)
                    (protocol s') of
               (res, p') \<Rightarrow> (res, s'\<lparr>protocol := p'\<rparr>)))"
    using c by (cases res) (simp_all add: setAllLEDs_def g t Array_fill_def)
  show "encodeSetDirectColors channel 0 (replicate 16 \<lparr>col_r = r, col_g = g, col_b = b\<rparr>) =
         [0xEC, 0x40, ToUint8 (js_bitor 0x80 channel), 0, 16]
           @ concat (replicate 16 [ToUint8 r, ToUint8 g, ToUint8 b]) @ replicate 12 0"
    by (rule encodeSetDirectColors_16)
  assume "state s \<noteq> DISCONNECTED \<and> device (protocol s) = Some d \<and> writes_succeed d"
  then have h: "state s \<noteq> DISCONNECTED" "device (protocol s) = Some d" "writes_succeed d"
    by simp_all
  show "setAllLEDs channel r g b s =
            (Inr (), s\<lparr>protocol := (protocol s)\<lparr>device := Some (d\<lparr>written := written d @
               (if state s = LOCKED
                then map (\<lambda>(channel, count). encodeSetTopology (int channel) count)
                       (Object_entries (topology s))
                else [])
               @ [encodeSetDirectColors channel 0
                    (replicate 16 \<lparr>col_r = r, col_g = g, col_b = b\<rparr>)]\<rparr>)\<rparr>,
              state := (if state s = LOCKED then RUNTIME else state s)\<rparr>)"
    using setAllLEDs_ok [OF h c, of r g b] by simp
qed

text \<open>
  Channel 5 of the default topology has no entry; channel 0 of the topology
  \<open>{0: 0}\<close> has the entry 0.
\<close>

theorem setAllLEDs_fallback_witness:
  "setAllLEDs 5 255 0 0 (example_session RUNTIME []) =
     (Inr (), \<lparr>protocol = \<lparr>device = Some \<lparr>written =
        [encodeSetDirectColors 5 0 (replicate 16 \<lparr>col_r = 255, col_g = 0, col_b = 0\<rparr>)],
        write_ok = (\<lambda>n. True), incoming = []\<rparr>\<rparr>,
       state = RUNTIME, topology = default_topology\<rparr>)
   \<and> setAllLEDs 0 255 0 0 ((example_session COMMITTED [])\<lparr>topology := [(0, 0)]\<rparr>) =
     (Inr (), \<lparr>protocol = \<lparr>device = Some \<lparr>written =
        [encodeSetDirectColors 0 0 (replicate 16 \<lparr>col_r = 255, col_g = 0, col_b = 0\<rparr>)],
        write_ok = (\<lambda>n. True), incoming = []\<rparr>\<rparr>,
       state = COMMITTED, topology = [(0, 0)]\<rparr>)
   \<and> encodeSetDirectColors 5 0 (replicate 16 \<lparr>col_r = 255, col_g = 0, col_b = 0\<rparr>) =
       [0xEC, 0x40, 0x85, 0, 16] @ concat (replicate 16 [255, 0, 0]) @ replicate 12 0"
proof -
  note t = setAllLEDs_falls_back_to_16
  let ?s1 = "example_session RUNTIME []"
  let ?s2 = "(example_session COMMITTED [])\<lparr>topology := [(0, 0)]\<rparr>"
  have a1: "Topology_get (topology ?s1) 5 = None \<or> Topology_get (topology ?s1) 5 = Some 0"
    by (simp add: example_session_def default_topology_def Topology_get_def)
  have a2: "Topology_get (topology ?s2) 0 = None \<or> Topology_get (topology ?s2) 0 = Some 0"
    by (simp add: Topology_get_def)
  have h1: "state ?s1 \<noteq> DISCONNECTED \<and> device (protocol ?s1) = Some (example_device [])
      \<and> writes_succeed (example_device [])"
    by (simp add: example_session_def)
  have h2: "state ?s2 \<noteq> DISCONNECTED \<and> device (protocol ?s2) = Some (example_device [])
      \<and> writes_succeed (example_device [])"
    by (simp add: example_session_def)
  note c1 = t [of ?s1 5 255 0 0 "example_device []", THEN mp, OF a1,
      THEN conjunct2, THEN conjunct1, THEN mp, OF h1]
  note c2 = t [of ?s2 0 255 0 0 "example_device []", THEN mp, OF a2,
      THEN conjunct2, THEN conjunct1, THEN mp, OF h2]
  note c3 = t [of ?s1 5 255 0 0 "example_device []", THEN mp, OF a1,
      THEN conjunct2, THEN conjunct2]
  have "ToUint8 (js_bitor 0x80 5) = 0x85" "ToUint8 255 = 255" "ToUint8 0 = 0"
    by (simp_all add: ToUint8_def js_bitor_def)
  then show ?thesis
    unfolding c1 c2 c3
    by (simp add: example_session_def example_device_def)
qed

subsection \<open>decodeConfig\<close>

lemma uint_byte_eq_numeral [simp]:
  "uint (w :: byte) = 0xEC \<longleftrightarrow> w = 0xEC"
  "uint (w :: byte) = 0x30 \<longleftrightarrow> w = 0x30"
  by (simp_all add: word_uint_eq_iff)

lemma decodeConfig_fails_iff:
  "(\<exists>e. decodeConfig resp = Inl e) \<longleftrightarrow>
     (resp = None
      \<or> (\<exists>response. resp = Some response
            \<and> \<not> (2 \<le> length response \<and> response ! 0 = 0xEC \<and> response ! 1 = 0x30)))"
  by (cases resp) (auto simp: decodeConfig_def buf_get_def)

lemma decodeConfig_error:
  "decodeConfig resp = Inl e \<Longrightarrow> e = InvalidConfigResponse"
  by (auto simp: decodeConfig_def split: option.splits if_splits)

lemma decodeConfig_ok:
  assumes "2 \<le> length response" "response ! 0 = 0xEC" "response ! 1 = 0x30"
  shows "decodeConfig (Some response) =
     Inr \<lparr>raw = response, configBytes = response,
          channel0_leds = buf_get response 0x0A,
          channel1_leds = buf_get response 0x10,
          channel2_leds = buf_get response 0x16\<rparr>"
  using assms by (auto simp: decodeConfig_def buf_get_def)

lemma example_response_facts:
  "length (example_response c0 c1 c2) = 65"
  "example_response c0 c1 c2 ! 0 = 0xEC"
  "example_response c0 c1 c2 ! 1 = 0x30"
  "buf_get (example_response c0 c1 c2) 0x0A = Some (uint c0)"
  "buf_get (example_response c0 c1 c2) 0x10 = Some (uint c1)"
  "buf_get (example_response c0 c1 c2) 0x16 = Some (uint c2)"
  by (simp_all add: example_response_def buf_get_def)

lemma decodeConfig_example:
  "decodeConfig (Some (example_response c0 c1 c2)) =
        Inr \<lparr>raw = example_response c0 c1 c2, configBytes = example_response c0 c1 c2,
             channel0_leds = Some (uint c0),
             channel1_leds = Some (uint c1),
             channel2_leds = Some (uint c2)\<rparr>"
  using decodeConfig_ok [of "example_response c0 c1 c2"] example_response_facts [of c0 c1 c2]
  by simp

text \<open>
  C8. Decoding a configuration response fails, with the protocol error, exactly when
  there is no response or the response does not start with the bytes 0xEC, 0x30. Any
  other response yields a snapshot whose three LED counts are the bytes at the offsets
  0x0A, 0x10 and 0x16, so a response built with known bytes at these offsets gives them
  back.
\<close>

theorem decodeConfig_checks_prefix_and_reads_fixed_offsets:
  "((\<exists>e. decodeConfig resp = Inl e) \<longleftrightarrow>
     (resp = None
      \<or> (\<exists>response. resp = Some response
            \<and> \<not> (2 \<le> length response \<and> response ! 0 = 0xEC \<and> response ! 1 = 0x30))))
   \<and> (decodeConfig resp = Inl e \<longrightarrow> e = InvalidConfigResponse \<and> ProtocolError e)
   \<and> (2 \<le> length response \<and> response ! 0 = 0xEC \<and> response ! 1 = 0x30 \<longrightarrow>
        decodeConfig (Some response) =
          Inr \<lparr>raw = response, configBytes = response,
               channel0_leds = buf_get response 0x0A,
               channel1_leds = buf_get response 0x10,
               channel2_leds = buf_get response 0x16\<rparr>)
   \<and> (0x16 < length response \<longrightarrow>
        buf_get response 0x0A = Some (uint (response ! 0x0A))
        \<and> buf_get response 0x10 = Some (uint (response ! 0x10))
        \<and> buf_get response 0x16 = Some (uint (response ! 0x16)))
   \<and> decodeConfig (Some (example_response c0 c1 c2)) =
        Inr \<lparr>raw = example_response c0 c1 c2, configBytes = example_response c0 c1 c2,
             channel0_leds = Some (uint c0),
             channel1_leds = Some (uint c1),
             channel2_leds = Some (uint c2)\<rparr>"
proof (intro conjI impI)
  show "(\<exists>e. decodeConfig resp = Inl e) \<longleftrightarrow>
     (resp = None
      \<or> (\<exists>response. resp = Some response
            \<and> \<not> (2 \<le> length response \<and> response ! 0 = 0xEC \<and> response ! 1 = 0x30)))"
    by (rule decodeConfig_fails_iff)
next
  assume a: "decodeConfig resp = Inl e"
  then show "e = InvalidConfigResponse" by (rule decodeConfig_error)
  then show "ProtocolError e" by simp
next
  assume "2 \<le> length response \<and> response ! 0 = 0xEC \<and> response ! 1 = 0x30"
  then show "decodeConfig (Some response) =
          Inr \<lparr>raw = response, configBytes = response,
               channel0_leds = buf_get response 0x0A,
               channel1_leds = buf_get response 0x10,
               channel2_leds = buf_get response 0x16\<rparr>"
    by (simp add: decodeConfig_ok)
next
  assume a: "0x16 < length response"
  show "buf_get response 0x0A = Some (uint (response ! 0x0A))"
    using a by (simp add: buf_get_def)
  show "buf_get response 0x10 = Some (uint (response ! 0x10))"
    using a by (simp add: buf_get_def)
  show "buf_get response 0x16 = Some (uint (response ! 0x16))"
    using a by (simp add: buf_get_def)
next
  show "decodeConfig (Some (example_response c0 c1 c2)) =
        Inr \<lparr>raw = example_response c0 c1 c2, configBytes = example_response c0 c1 c2,
             channel0_leds = Some (uint c0),
             channel1_leds = Some (uint c1),
             channel2_leds = Some (uint c2)\<rparr>"
    by (rule decodeConfig_example)
qed

text \<open>
  A response with the counts 15, 15, 16; no response; a one-byte response; a response
  whose second byte is wrong.
\<close>

theorem decodeConfig_witness:
  "decodeConfig (Some (example_response 15 15 16)) =
     Inr \<lparr>raw = example_response 15 15 16, configBytes = example_response 15 15 16,
          channel0_leds = Some 15, channel1_leds = Some 15, channel2_leds = Some 16\<rparr>
   \<and> decodeConfig None = Inl InvalidConfigResponse
   \<and> decodeConfig (Some [0xEC]) = Inl InvalidConfigResponse
   \<and> decodeConfig (Some ((example_response 15 15 16)[1 := 0x31])) = Inl InvalidConfigResponse
   \<and> ProtocolError InvalidConfigResponse"
proof -
  note t = decodeConfig_checks_prefix_and_reads_fixed_offsets
  let ?r = "example_response 15 15 16"
  have h: "2 \<le> length ?r \<and> ?r ! 0 = 0xEC \<and> ?r ! 1 = 0x30"
    using example_response_facts(1-3) [of 15 15 16] by simp
  have o: "0x16 < length ?r" by (simp add: example_response_facts)
  note c3 = t [of _ _ ?r, THEN conjunct2, THEN conjunct2, THEN conjunct1, THEN mp, OF h]
  note c4 = t [of _ _ ?r, THEN conjunct2, THEN conjunct2, THEN conjunct2, THEN conjunct1,
      THEN mp, OF o]
  have v: "?r ! 0x0A = 15" "?r ! 0x10 = 15" "?r ! 0x16 = 16"
    by (simp_all add: example_response_def)
  have 1: "decodeConfig (Some ?r) =
     Inr \<lparr>raw = ?r, configBytes = ?r,
          channel0_leds = Some 15, channel1_leds = Some 15, channel2_leds = Some 16\<rparr>"
    unfolding c3 using c4 v by simp
  have f1: "\<exists>e. decodeConfig None = Inl e"
    using t [of None, THEN conjunct1] by simp
  have f2: "\<exists>e. decodeConfig (Some [0xEC]) = Inl e"
    using t [of "Some [0xEC]", THEN conjunct1] by simp
  have f3: "\<exists>e. decodeConfig (Some (?r[1 := 0x31])) = Inl e"
    using t [of "Some (?r[1 := 0x31])", THEN conjunct1]
    by (simp add: example_response_def)
  have e: "\<And>resp. \<exists>e. decodeConfig resp = Inl e \<Longrightarrow> decodeConfig resp = Inl InvalidConfigResponse"
    using t [THEN conjunct2, THEN conjunct1] by blast
  show ?thesis using 1 e [OF f1] e [OF f2] e [OF f3] by simp
qed

subsection \<open>getConfig and isBricked\<close>

lemma getConfig_DISCONNECTED:
  "state s = DISCONNECTED \<Longrightarrow> getConfig s = (Inl BSM_NotConnected, s)"
  by (simp add: getConfig_def)

lemma getConfig_ok:
  assumes "state s \<noteq> DISCONNECTED" "device (protocol s) = Some d" "writes_succeed d"
  shows "getConfig s =
     (decodeConfig (case incoming d of [] \<Rightarrow> None | response # rest \<Rightarrow> response),
      s\<lparr>protocol := (protocol s)\<lparr>device := Some (d\<lparr>written := written d @ [encodeReadConfig],
                                                   incoming := tl (incoming d)\<rparr>)\<rparr>\<rparr>)"
  using assms by (simp add: getConfig_def AuraProtocol_getConfig_ok)

lemma isBricked_check_iff:
  "isBricked_check config \<longleftrightarrow>
     channel0_leds config = Some 0 \<or> channel1_leds config = Some 0
     \<or> channel2_leds config = Some 0
     \<or> (channel0_leds config = channel1_leds config
         \<and> channel1_leds config = channel2_leds config
         \<and> channel0_leds config \<noteq> Some 15)"
  by (auto simp: isBricked_check_def Let_def)

lemma isBricked_Inr:
  "fst (getConfig s) = Inr config \<Longrightarrow> fst (isBricked s) = isBricked_check config"
  by (cases "getConfig s") (simp add: isBricked_def)

lemma isBricked_Inl:
  "fst (getConfig s) = Inl e \<Longrightarrow> fst (isBricked s) = True"
  by (cases "getConfig s") (simp add: isBricked_def)

text \<open>
  C4. When the configuration can be read, \<open>isBricked\<close> returns true exactly when one
  of the three counts is 0, or the three are equal and differ from 15. When reading the
  configuration fails, for whatever reason, it returns true. So a snapshot with a zero
  count and the snapshot (5, 5, 5) are bricked, and (15, 15, 16) is not.
\<close>

theorem isBricked_classifies_snapshot:
  "(fst (getConfig s) = Inr config \<longrightarrow>
      (fst (isBricked s) \<longleftrightarrow>
         channel0_leds config = Some 0 \<or> channel1_leds config = Some 0
         \<or> channel2_leds config = Some 0
         \<or> (channel0_leds config = channel1_leds config
             \<and> channel1_leds config = channel2_leds config
             \<and> channel0_leds config \<noteq> Some 15)))
   \<and> (fst (getConfig s) = Inl e \<longrightarrow> fst (isBricked s))
   \<and> (isBricked_check config \<longleftrightarrow>
         channel0_leds config = Some 0 \<or> channel1_leds config = Some 0
         \<or> channel2_leds config = Some 0
         \<or> (channel0_leds config = channel1_leds config
             \<and> channel1_leds config = channel2_leds config
             \<and> channel0_leds config \<noteq> Some 15))
   \<and> isBricked_check \<lparr>raw = bytes, configBytes = bytes, channel0_leds = Some 0,
                       channel1_leds = c1, channel2_leds = c2\<rparr>
   \<and> isBricked_check \<lparr>raw = bytes, configBytes = bytes, channel0_leds = c0,
                       channel1_leds = Some 0, channel2_leds = c2\<rparr>
   \<and> isBricked_check \<lparr>raw = bytes, configBytes = bytes, channel0_leds = c0,
                       channel1_leds = c1, channel2_leds = Some 0\<rparr>
   \<and> isBricked_check \<lparr>raw = bytes, configBytes = bytes, channel0_leds = Some 5,
                       channel1_leds = Some 5, channel2_leds = Some 5\<rparr>
   \<and> \<not> isBricked_check \<lparr>raw = bytes, configBytes = bytes, channel0_leds = Some 15,
                         channel1_leds = Some 15, channel2_leds = Some 16\<rparr>"
proof (intro conjI impI)
  assume "fst (getConfig s) = Inr config"
  then show "fst (isBricked s) \<longleftrightarrow>
         channel0_leds config = Some 0 \<or> channel1_leds config = Some 0
         \<or> channel2_leds config = Some 0
         \<or> (channel0_leds config = channel1_leds config
             \<and> channel1_leds config = channel2_leds config
             \<and> channel0_leds config \<noteq> Some 15)"
    using isBricked_check_iff [of config] by (simp add: isBricked_Inr)
next
  assume "fst (getConfig s) = Inl e"
  then show "fst (isBricked s)" by (simp add: isBricked_Inl)
next
  show "isBricked_check config \<longleftrightarrow>
         channel0_leds config = Some 0 \<or> channel1_leds config = Some 0
         \<or> channel2_leds config = Some 0
         \<or> (channel0_leds config = channel1_leds config
             \<and> channel1_leds config = channel2_leds config
             \<and> channel0_leds config \<noteq> Some 15)"
    by (rule isBricked_check_iff)
qed (simp_all add: isBricked_check_iff)

text \<open>
  \<open>isBricked\<close> on sessions whose device answers with the counts (15, 15, 16), (5, 5, 5),
  (15, 0, 16), (15, 15, 9), on a session whose device does not answer, and on a
  disconnected session.
\<close>

theorem isBricked_witness:
  "fst (isBricked (example_session RUNTIME [Some (example_response 15 15 16)])) = False
   \<and> fst (isBricked (example_session RUNTIME [Some (example_response 5 5 5)])) = True
   \<and> fst (isBricked (example_session RUNTIME [Some (example_response 15 0 16)])) = True
   \<and> fst (isBricked (example_session RUNTIME [Some (example_response 15 15 9)])) = False
   \<and> fst (isBricked (example_session RUNTIME [])) = True
   \<and> fst (isBricked (new_SafeAuraController None)) = True"
proof -
  note t = isBricked_classifies_snapshot
  have w: "\<And>rs. state (example_session RUNTIME rs) \<noteq> DISCONNECTED"
    "\<And>rs. device (protocol (example_session RUNTIME rs)) = Some (example_device rs)"
    by (simp_all add: example_session_def)
  have g: "\<And>c0 c1 c2. fst (getConfig (example_session RUNTIME [Some (example_response c0 c1 c2)]))
      = Inr \<lparr>raw = example_response c0 c1 c2, configBytes = example_response c0 c1 c2,
             channel0_leds = Some (uint c0),
             channel1_leds = Some (uint c1),
             channel2_leds = Some (uint c2)\<rparr>"
    by (simp add: getConfig_ok [OF w writes_succeed_example] example_device_def
        decodeConfig_example)
  have g0: "fst (getConfig (example_session RUNTIME [])) = Inl InvalidConfigResponse"
    by (simp add: getConfig_ok [OF w writes_succeed_example] example_device_def decodeConfig_def)
  have g1: "fst (getConfig (new_SafeAuraController None)) = Inl BSM_NotConnected"
    by (simp add: getConfig_def new_SafeAuraController_def)
  show ?thesis
    using t [THEN conjunct1, THEN mp, OF g [of 15 15 16]]
      t [THEN conjunct1, THEN mp, OF g [of 5 5 5]]
      t [THEN conjunct1, THEN mp, OF g [of 15 0 16]]
      t [THEN conjunct1, THEN mp, OF g [of 15 15 9]]
      t [THEN conjunct2, THEN conjunct1, THEN mp, OF g0]
      t [THEN conjunct2, THEN conjunct1, THEN mp, OF g1]
    by simp
qed


subsection \<open>unbrick\<close>

lemma AuraProtocol_commit_None:
  "device p = None \<Longrightarrow> AuraProtocol_commit p = (Inl NotConnected, p)"
  by (simp add: AuraProtocol_commit_def sendPacket_None)

lemma unbrick_not_connected:
  assumes "device (protocol s) = None"
  shows "unbrick targetTopology s = (Inl NotConnected, s)"
proof (cases "Object_entries (case targetTopology of None \<Rightarrow> topology s | Some t \<Rightarrow> t)")
  case Nil
  then show ?thesis
    using assms by (simp add: unbrick_def AuraProtocol_commit_None)
next
  case (Cons x xs)
  then show ?thesis
    using assms setLEDCount_each_None [of "protocol s" "x # xs"] by (simp add: unbrick_def)
qed

lemma unbrick_ok:
  assumes "state s \<noteq> DISCONNECTED" "device (protocol s) = Some d" "writes_succeed d"
  shows "unbrick targetTopology s =
     (case decodeConfig (case incoming d of [] \<Rightarrow> None | response # rest \<Rightarrow> response) of
        Inl e \<Rightarrow>
          (Inl e,
           s\<lparr>protocol := (protocol s)\<lparr>device := Some (d\<lparr>written := written d @
                map (\<lambda>(channel, count). encodeSetTopology (int channel) count)
                  (Object_entries (case targetTopology of None \<Rightarrow> topology s | Some t \<Rightarrow> t))
                @ [encodeCommit, encodeReadConfig],
              incoming := tl (incoming d)\<rparr>)\<rparr>\<rparr>)
      | Inr config \<Rightarrow>
          (Inr (\<exists>n. channel2_leds config = Some n \<and> 16 \<le> n),
           s\<lparr>protocol := (protocol s)\<lparr>device := Some (d\<lparr>written := written d @
                map (\<lambda>(channel, count). encodeSetTopology (int channel) count)
                  (Object_entries (case targetTopology of None \<Rightarrow> topology s | Some t \<Rightarrow> t))
                @ [encodeCommit, encodeReadConfig],
              incoming := tl (incoming d)\<rparr>)\<rparr>,
             state := COMMITTED\<rparr>))"
proof -
  have g: "\<And>v. ge16 v \<longleftrightarrow> (\<exists>n. v = Some n \<and> 16 \<le> n)"
    by (simp add: ge16_def split: option.splits)
  show ?thesis
    using assms
    by (simp add: unbrick_def Let_def setLEDCount_each_ok AuraProtocol_commit_ok getConfig_ok g
        split: sum.splits)
qed

text \<open>
  C3, as the code has it. In a session that is not \<open>DISCONNECTED\<close>, on an open device
  that accepts the writes, and for a target topology (the session's own when none is
  given) whose keys are array indices, \<open>unbrick\<close> sends one set-topology packet for each
  channel of the target topology in ascending channel order, then the commit packet,
  then the read-configuration request. When the answer is a valid configuration it
  returns whether the count of channel 2 is at least 16 and leaves the state
  \<open>COMMITTED\<close> in both cases; when the answer is missing or invalid it fails with that
  error and leaves the tracked state as it was. Without an open device it fails and
  changes nothing. (Each property of the target topology is listed exactly once whatever
  the keys.)
\<close>

theorem unbrick_on_a_connected_session:
  "(state s \<noteq> DISCONNECTED \<and> device (protocol s) = Some d \<and> writes_succeed d
      \<and> array_index_keys (case targetTopology of None \<Rightarrow> topology s | Some t \<Rightarrow> t) \<longrightarrow>
      unbrick targetTopology s =
       (case decodeConfig (case incoming d of [] \<Rightarrow> None | response # rest \<Rightarrow> response) of
          Inl e \<Rightarrow>
            (Inl e,
             s\<lparr>protocol := (protocol s)\<lparr>device := Some (d\<lparr>written := written d @
                  map (\<lambda>(channel, count). encodeSetTopology (int channel) count)
                    (Object_entries (case targetTopology of None \<Rightarrow> topology s | Some t \<Rightarrow> t))
                  @ [encodeCommit, encodeReadConfig],
                incoming := tl (incoming d)\<rparr>)\<rparr>\<rparr>)
        | Inr config \<Rightarrow>
            (Inr (\<exists>n. channel2_leds config = Some n \<and> 16 \<le> n),
             s\<lparr>protocol := (protocol s)\<lparr>device := Some (d\<lparr>written := written d @
                  map (\<lambda>(channel, count). encodeSetTopology (int channel) count)
                    (Object_entries (case targetTopology of None \<Rightarrow> topology s | Some t \<Rightarrow> t))
                  @ [encodeCommit, encodeReadConfig],
                incoming := tl (incoming d)\<rparr>)\<rparr>,
               state := COMMITTED\<rparr>))
      \<and> sorted_wrt (<) (map fst
            (Object_entries (case targetTopology of None \<Rightarrow> topology s | Some t \<Rightarrow> t))))
   \<and> (device (protocol s) = None \<longrightarrow> unbrick targetTopology s = (Inl NotConnected, s))
   \<and> distinct (map fst
         (Object_entries (case targetTopology of None \<Rightarrow> topology s | Some t \<Rightarrow> t)))
   \<and> set (Object_entries (case targetTopology of None \<Rightarrow> topology s | Some t \<Rightarrow> t)) =
        {(channel, count).
           map_of (case targetTopology of None \<Rightarrow> topology s | Some t \<Rightarrow> t) channel = Some count}"
  using unbrick_ok [of s d targetTopology] unbrick_not_connected [of s targetTopology]
    Object_entries_ascending [of "case targetTopology of None \<Rightarrow> topology s | Some t \<Rightarrow> t"]
    distinct_Object_entries [of "case targetTopology of None \<Rightarrow> topology s | Some t \<Rightarrow> t"]
    set_Object_entries [of "case targetTopology of None \<Rightarrow> topology s | Some t \<Rightarrow> t"]
  by blast

text \<open>
  A successful recovery, a recovery whose verification fails (channel 2 reads 9), and
  \<open>unbrick\<close> on a new session.
\<close>

theorem unbrick_witness:
  "unbrick (Some [(0, 15), (1, 15), (2, 16)])
      (example_session LOCKED [Some (example_response 15 15 16)]) =
     (Inr True, \<lparr>protocol = \<lparr>device = Some \<lparr>written =
        [encodeSetTopology 0 15, encodeSetTopology 1 15, encodeSetTopology 2 16,
         encodeCommit, encodeReadConfig],
        write_ok = (\<lambda>n. True), incoming = []\<rparr>\<rparr>,
       state = COMMITTED, topology = default_topology\<rparr>)
   \<and> unbrick None (example_session RUNTIME [Some (example_response 15 15 9)]) =
     (Inr False, \<lparr>protocol = \<lparr>device = Some \<lparr>written =
        [encodeSetTopology 0 15, encodeSetTopology 1 15, encodeSetTopology 2 16,
         encodeCommit, encodeReadConfig],
        write_ok = (\<lambda>n. True), incoming = []\<rparr>\<rparr>,
       state = COMMITTED, topology = default_topology\<rparr>)
   \<and> array_index_keys [(0, 15), (1, 15), (2, 16)]
   \<and> unbrick None (new_SafeAuraController None) = (Inl NotConnected, new_SafeAuraController None)"
proof -
  note t = unbrick_on_a_connected_session
  let ?r1 = "[Some (example_response 15 15 16)]"
  let ?r2 = "[Some (example_response 15 15 9)]"
  have k: "array_index_keys [(0, 15), (1, 15), (2, 16)]"
    by (simp add: array_index_keys_def array_index_def)
  have h1: "state (example_session LOCKED ?r1) \<noteq> DISCONNECTED
      \<and> device (protocol (example_session LOCKED ?r1)) = Some (example_device ?r1)
      \<and> writes_succeed (example_device ?r1)
      \<and> array_index_keys (case Some [(0, 15), (1, 15), (2, 16)] of
            None \<Rightarrow> topology (example_session LOCKED ?r1) | Some t \<Rightarrow> t)"
    using k by (simp add: example_session_def)
  have h2: "state (example_session RUNTIME ?r2) \<noteq> DISCONNECTED
      \<and> device (protocol (example_session RUNTIME ?r2)) = Some (example_device ?r2)
      \<and> writes_succeed (example_device ?r2)
      \<and> array_index_keys (case None of
            None \<Rightarrow> topology (example_session RUNTIME ?r2) | Some t \<Rightarrow> t)"
    by (simp add: example_session_def)
  have h3: "device (protocol (new_SafeAuraController None)) = None"
    by (simp add: new_SafeAuraController_def new_AuraProtocol_def)
  note c1 = t [of "example_session LOCKED ?r1" "example_device ?r1"
      "Some [(0, 15), (1, 15), (2, 16)]", THEN conjunct1, THEN mp, OF h1, THEN conjunct1]
  note c2 = t [of "example_session RUNTIME ?r2" "example_device ?r2" None,
      THEN conjunct1, THEN mp, OF h2, THEN conjunct1]
  note c3 = t [of "new_SafeAuraController None" _ None,
      THEN conjunct2, THEN conjunct1, THEN mp, OF h3]
  show ?thesis
    unfolding c1 c2 c3
    by (simp add: example_session_def example_device_def decodeConfig_example
        Object_entries_def OwnPropertyKeys_def array_index_def array_index_keys_def
        default_topology_def)
qed

text \<open>
  C3 as stated fails: on a new session \<open>unbrick\<close> returns nothing and the state stays
  \<open>DISCONNECTED\<close>; and on a connected session whose device does not answer the
  re-read, the commit and the request are sent, \<open>unbrick\<close> fails, and the state stays
  \<open>RUNTIME\<close>.
\<close>

theorem unbrick_fails_without_a_valid_response:
  "fst (unbrick None (new_SafeAuraController None)) = Inl NotConnected
   \<and> state (snd (unbrick None (new_SafeAuraController None))) = DISCONNECTED
   \<and> state (snd (connect (Present (example_device [])) (new_SafeAuraController None))) = RUNTIME
   \<and> fst (unbrick None (snd (connect (Present (example_device []))
        (new_SafeAuraController None)))) = Inl InvalidConfigResponse
   \<and> state (snd (unbrick None (snd (connect (Present (example_device []))
        (new_SafeAuraController None))))) = RUNTIME
   \<and> last (written (the (device (protocol (snd (unbrick None
        (snd (connect (Present (example_device [])) (new_SafeAuraController None))))))))) =
       encodeReadConfig"
proof -
  have n: "unbrick None (new_SafeAuraController None) = (Inl NotConnected, new_SafeAuraController None)"
    by (rule unbrick_not_connected) (simp add: new_SafeAuraController_def new_AuraProtocol_def)
  have d: "state (new_SafeAuraController None) = DISCONNECTED"
    by (simp add: new_SafeAuraController_def)
  let ?s = "snd (connect (Present (example_device [])) (new_SafeAuraController None))"
  have c: "connect (Present (example_device [])) (new_SafeAuraController None) =
     (Inr (), \<lparr>protocol = \<lparr>device = Some \<lparr>written =
        [encodeSetTopology 0 15, encodeSetTopology 1 15, encodeSetTopology 2 16],
        write_ok = (\<lambda>n. True), incoming = []\<rparr>\<rparr>,
       state = RUNTIME, topology = default_topology\<rparr>)"
    by (simp add: connect_ok new_SafeAuraController_def new_AuraProtocol_def
        Object_entries_default example_device_def writes_succeed_def)
  let ?d = "\<lparr>written = [encodeSetTopology 0 15, encodeSetTopology 1 15, encodeSetTopology 2 16],
        write_ok = (\<lambda>n. True), incoming = []\<rparr>"
  have w: "writes_succeed ?d" by (simp add: writes_succeed_def)
  have u: "unbrick None (\<lparr>protocol = \<lparr>device = Some ?d\<rparr>,
       state = RUNTIME, topology = default_topology\<rparr>) =
     (Inl InvalidConfigResponse, \<lparr>protocol = \<lparr>device = Some \<lparr>written =
        [encodeSetTopology 0 15, encodeSetTopology 1 15, encodeSetTopology 2 16,
         encodeSetTopology 0 15, encodeSetTopology 1 15, encodeSetTopology 2 16,
         encodeCommit, encodeReadConfig],
        write_ok = (\<lambda>n. True), incoming = []\<rparr>\<rparr>,
       state = RUNTIME, topology = default_topology\<rparr>)"
    by (subst unbrick_ok [of _ ?d]) (simp_all add: w decodeConfig_def Object_entries_default)
  show ?thesis unfolding n c using d u by simp
qed

end
